theory Spec2Isabelle
  imports Complex_Main
begin

section \<open>Data model\<close>

text \<open>
  The editor is a set of React components written in TypeScript.  A JavaScript
  \<^verbatim>\<open>number\<close> is modelled as a real number, an optional field and a nullable state
  variable as an \<open>option\<close>, an array as a list.  Component state (the \<^verbatim>\<open>useState\<close>
  cells) is a record that every handler takes and returns.
\<close>

record Point =
  px :: real
  py :: real

record Size =
  width :: real
  height :: real

record FurnitureItem =
  f_id :: string
  f_name :: string
  f_position :: Point
  f_areaId :: string
  f_size :: Size
  f_color :: "string option"

record AreaData =
  a_id :: string
  a_type :: string
  a_points :: "Point list"
  a_areaSqFt :: real
  a_color :: string
  a_furniture :: "FurnitureItem list option"

definition GRID_SIZE :: real where
  "GRID_SIZE = 20"

section \<open>Geometry kernel (CanvasDesigner.tsx)\<close>

text \<open>\<^verbatim>\<open>Math.round\<close> rounds to the nearest integer, halves towards plus infinity.\<close>

definition Math_round :: "real \<Rightarrow> real" where
  "Math_round v = of_int \<lfloor>v + 1 / 2\<rfloor>"

definition snapToGrid :: "real \<Rightarrow> real" where
  "snapToGrid v = Math_round (v / GRID_SIZE) * GRID_SIZE"

text \<open>
  The shoelace loop of \<^verbatim>\<open>calculatePolygonArea\<close>:
  \<^verbatim>\<open>for (let i = 0; i < points.length; i++) { const j = (i + 1) % points.length; ... }\<close>
\<close>

function shoelace_loop :: "Point list \<Rightarrow> nat \<Rightarrow> real \<Rightarrow> real" where
  "shoelace_loop points i area =
     (if i < length points then
        (let j = (i + 1) mod length points;
             area1 = area + px (points ! i) * py (points ! j);
             area2 = area1 - px (points ! j) * py (points ! i)
         in shoelace_loop points (Suc i) area2)
      else area)"
  by pat_completeness auto
termination
  by (relation "measure (\<lambda>(points, i, area). length points - i)") auto

declare shoelace_loop.simps [simp del]

definition calculatePolygonArea :: "Point list \<Rightarrow> real" where
  "calculatePolygonArea points =
     (if length points < 3 then 0
      else
        (let area = \<bar>shoelace_loop points 0 0\<bar> / 2;
             areaInPixels = area;
             areaInSqFt = areaInPixels / (GRID_SIZE * GRID_SIZE)
         in Math_round areaInSqFt))"

text \<open>
  The crossing test of one edge in \<^verbatim>\<open>isPointInPolygon\<close>.  The division is only
  evaluated when the two end points lie on different sides of the ray, so the divisor
  is never zero when it is used.
\<close>

definition edgeCrosses :: "Point \<Rightarrow> Point \<Rightarrow> Point \<Rightarrow> bool" where
  "edgeCrosses point vi vj =
     (((py vi > py point) \<noteq> (py vj > py point)) \<and>
      (px point < (px vj - px vi) * (py point - py vi) / (py vj - py vi) + px vi))"

text \<open>
  \<^verbatim>\<open>for (let i = 0, j = polygon.length - 1; i < polygon.length; j = i++)\<close>
\<close>

function isPointInPolygon_loop :: "Point \<Rightarrow> Point list \<Rightarrow> nat \<Rightarrow> nat \<Rightarrow> bool \<Rightarrow> bool" where
  "isPointInPolygon_loop point polygon i j inside =
     (if i < length polygon then
        isPointInPolygon_loop point polygon (Suc i) i
          (if edgeCrosses point (polygon ! i) (polygon ! j) then \<not> inside else inside)
      else inside)"
  by pat_completeness auto
termination
  by (relation "measure (\<lambda>(point, polygon, i, j, inside). length polygon - i)") auto

declare isPointInPolygon_loop.simps [simp del]

definition isPointInPolygon :: "Point \<Rightarrow> Point list \<Rightarrow> bool" where
  "isPointInPolygon point polygon =
     isPointInPolygon_loop point polygon 0 (length polygon - 1) False"

definition getFurnitureCorners :: "Point \<Rightarrow> Size \<Rightarrow> Point list" where
  "getFurnitureCorners center sz =
     (let halfW = width sz / 2; halfH = height sz / 2 in
      [\<lparr>px = px center - halfW, py = py center - halfH\<rparr>,
       \<lparr>px = px center + halfW, py = py center - halfH\<rparr>,
       \<lparr>px = px center - halfW, py = py center + halfH\<rparr>,
       \<lparr>px = px center + halfW, py = py center + halfH\<rparr>])"

definition areCornersInsideArea :: "Point list \<Rightarrow> Point \<Rightarrow> Size \<Rightarrow> bool" where
  "areCornersInsideArea areaPoints center sz =
     list_all (\<lambda>corner. isPointInPolygon corner areaPoints) (getFurnitureCorners center sz)"

definition pt :: "real \<Rightarrow> real \<Rightarrow> Point" where
  "pt a b = \<lparr>px = a, py = b\<rparr>"

definition square10 :: "Point list" where
  "square10 = [pt 0 0, pt 10 0, pt 10 10, pt 0 10]"

section \<open>Strings and JavaScript truthiness\<close>

text \<open>
  \<^verbatim>\<open>Date.now()\<close> is a natural number of milliseconds, handed to the handlers that
  read the clock; a template literal prints it in decimal.
\<close>

fun string_of_nat :: "nat \<Rightarrow> string" where
  "string_of_nat n =
     (if n < 10 then [char_of (48 + n)]
      else string_of_nat (n div 10) @ [char_of (48 + n mod 10)])"

declare string_of_nat.simps [simp del]

text \<open>Numbers printed in a message are the integer-valued results of \<^verbatim>\<open>Math.round\<close>.\<close>

definition string_of_number :: "real \<Rightarrow> string" where
  "string_of_number v =
     (if v < 0 then ''-'' @ string_of_nat (nat \<lfloor>- v\<rfloor>) else string_of_nat (nat \<lfloor>v\<rfloor>))"

definition toLowerCase :: "string \<Rightarrow> string" where
  "toLowerCase str =
     map (\<lambda>c. let n = (of_char c :: nat) in if 65 \<le> n \<and> n \<le> 90 then char_of (n + 32) else c) str"

text \<open>A \<^verbatim>\<open>string | null\<close> is falsy when it is \<^verbatim>\<open>null\<close> or the empty string.\<close>

definition truthy :: "string option \<Rightarrow> bool" where
  "truthy v = (case v of None \<Rightarrow> False | Some str \<Rightarrow> str \<noteq> [])"

section \<open>The desktop designer (CanvasDesigner.tsx)\<close>

datatype handle = nw | ne | sw | se

fun handle_key :: "handle \<Rightarrow> string" where
  "handle_key nw = ''nw''"
| "handle_key ne = ''ne''"
| "handle_key sw = ''sw''"
| "handle_key se = ''se''"

definition handle_includes :: "handle \<Rightarrow> char \<Rightarrow> bool" where
  "handle_includes h c = (c \<in> set (handle_key h))"

datatype mode = AreaMode | FurnitureMode | EditingMode

record MouseEvent =
  clientX :: real
  clientY :: real

text \<open>
  The state cells of the component.  \<open>canvasRect\<close> is the left/top corner of
  \<^verbatim>\<open>canvasRef.current.getBoundingClientRect()\<close>, \<open>None\<close> while the canvas is not
  mounted; \<open>toasts\<close> is the log of the messages handed to \<^verbatim>\<open>toast\<close>, oldest first.
\<close>

record designer =
  selectedAreaType :: string
  areas :: "AreaData list"
  zoomLevel :: real
  panOffset :: Point
  isDrawingPolygon :: bool
  currentPolygon :: "Point list"
  selectedFurniture :: "string option"
  selectedArea :: "string option"
  isPlacingFurniture :: bool
  draggedFurniture :: "string option"
  isDraggingFurniture :: bool
  dragStartPos :: Point
  selectedFurnitureItem :: "string option"
  isResizingFurniture :: bool
  resizingFurnitureId :: "string option"
  resizeHandle :: "handle option"
  showResizeHandles :: "string option"
  interactionMode :: mode
  lastClickTime :: nat
  canvasRect :: "Point option"
  toasts :: "string list"

definition toast :: "string \<Rightarrow> designer \<Rightarrow> designer" where
  "toast msg s = s\<lparr>toasts := toasts s @ [msg]\<rparr>"

text \<open>
  The colour and name tables are object literals read with \<^verbatim>\<open>table[key] || fallback\<close>;
  the keys that matter are their own keys.
\<close>

definition getAreaColor :: "string \<Rightarrow> string" where
  "getAreaColor areaType =
     (case map_of
        [(''bedroom'', ''#3b82f6''), (''washroom'', ''#06b6d4''), (''kitchen'', ''#ef4444''),
         (''living-room'', ''#10b981''), (''balcony'', ''#84cc16''), (''lobby'', ''#f59e0b''),
         (''stairs'', ''#6b7280''), (''entrance'', ''#8b5cf6'')] areaType of
        Some c \<Rightarrow> c
      | None \<Rightarrow> ''#6b7280'')"

definition getAreaName :: "string \<Rightarrow> string" where
  "getAreaName areaType =
     (case map_of
        [(''bedroom'', ''Bedroom''), (''washroom'', ''Washroom''), (''kitchen'', ''Kitchen''),
         (''living-room'', ''Living Room''), (''balcony'', ''Balcony''), (''lobby'', ''Lobby''),
         (''stairs'', ''Stairs''), (''entrance'', ''Entrance'')] areaType of
        Some n \<Rightarrow> n
      | None \<Rightarrow> ''Area'')"

definition toScreenX :: "designer \<Rightarrow> real \<Rightarrow> real" where
  "toScreenX s wx = (wx + px (panOffset s)) * zoomLevel s"

definition toScreenY :: "designer \<Rightarrow> real \<Rightarrow> real" where
  "toScreenY s wy = (wy + py (panOffset s)) * zoomLevel s"

text \<open>
  The inverse mapping from a canvas-relative screen coordinate to the world, the
  expression \<^verbatim>\<open>(clientX - rect.left) / zoomLevel - panOffset.x\<close> of \<^verbatim>\<open>getMousePos\<close>
  and \<^verbatim>\<open>mouseX / zoomLevel - panOffset.x\<close> of \<^verbatim>\<open>handleWheel\<close>.
\<close>

definition worldX :: "designer \<Rightarrow> real \<Rightarrow> real" where
  "worldX s mouseX = mouseX / zoomLevel s - px (panOffset s)"

definition worldY :: "designer \<Rightarrow> real \<Rightarrow> real" where
  "worldY s mouseY = mouseY / zoomLevel s - py (panOffset s)"

definition getMousePos :: "designer \<Rightarrow> MouseEvent \<Rightarrow> Point" where
  "getMousePos s e =
     (case canvasRect s of
        None \<Rightarrow> \<lparr>px = 0, py = 0\<rparr>
      | Some rect \<Rightarrow>
          (let x = worldX s (clientX e - px rect);
               y = worldY s (clientY e - py rect)
           in \<lparr>px = snapToGrid x, py = snapToGrid y\<rparr>))"

definition handleZoomIn :: "designer \<Rightarrow> designer" where
  "handleZoomIn s = s\<lparr>zoomLevel := min (zoomLevel s * 1.2) 3\<rparr>"

definition handleZoomOut :: "designer \<Rightarrow> designer" where
  "handleZoomOut s = s\<lparr>zoomLevel := max (zoomLevel s / 1.2) 0.3\<rparr>"

record WheelEvent =
  w_clientX :: real
  w_clientY :: real
  deltaY :: real

definition handleWheel :: "designer \<Rightarrow> WheelEvent \<Rightarrow> designer" where
  "handleWheel s e =
     (case canvasRect s of
        None \<Rightarrow> s
      | Some rect \<Rightarrow>
          (let mouseX = w_clientX e - px rect;
               mouseY = w_clientY e - py rect;
               delta = deltaY e;
               zoomFactor = exp (- delta * 0.001);
               minZ = 0.3; maxZ = 3;
               newZoom = min maxZ (max minZ (zoomLevel s * zoomFactor));
               wX = worldX s mouseX;
               wY = worldY s mouseY;
               newPanX = mouseX / newZoom - wX;
               newPanY = mouseY / newZoom - wY
           in s\<lparr>zoomLevel := newZoom, panOffset := \<lparr>px = newPanX, py = newPanY\<rparr>\<rparr>))"

text \<open>\<^verbatim>\<open>area.furniture || []\<close>\<close>

definition furnitureOrEmpty :: "AreaData \<Rightarrow> FurnitureItem list" where
  "furnitureOrEmpty a = (case a_furniture a of None \<Rightarrow> [] | Some fs \<Rightarrow> fs)"

text \<open>\<^verbatim>\<open>areas.flatMap(a => a.furniture || [])\<close>\<close>

definition allFurniture :: "AreaData list \<Rightarrow> FurnitureItem list" where
  "allFurniture as = concat (map furnitureOrEmpty as)"

definition furnitureHit :: "Point \<Rightarrow> FurnitureItem \<Rightarrow> bool" where
  "furnitureHit point f =
     (let halfWidth = width (f_size f) / 2; halfHeight = height (f_size f) / 2 in
      px point \<ge> px (f_position f) - halfWidth \<and>
      px point \<le> px (f_position f) + halfWidth \<and>
      py point \<ge> py (f_position f) - halfHeight \<and>
      py point \<le> py (f_position f) + halfHeight)"

definition getFurnitureAtPoint :: "AreaData list \<Rightarrow> Point \<Rightarrow> FurnitureItem option" where
  "getFurnitureAtPoint as point = find (furnitureHit point) (allFurniture as)"

text \<open>The \<^verbatim>\<open>setAreas(prev => prev.map(...))\<close> updates of one field of the items of an id.\<close>

definition mapFurniture :: "(FurnitureItem \<Rightarrow> FurnitureItem) \<Rightarrow> AreaData list \<Rightarrow> AreaData list" where
  "mapFurniture g as = map (\<lambda>a. a\<lparr>a_furniture := map_option (map g) (a_furniture a)\<rparr>) as"

definition resizeFurniture :: "string \<Rightarrow> Size \<Rightarrow> designer \<Rightarrow> designer" where
  "resizeFurniture furnitureId newSize s =
     s\<lparr>areas := mapFurniture
          (\<lambda>f. if f_id f = furnitureId then f\<lparr>f_size := newSize\<rparr> else f) (areas s)\<rparr>"

definition renameFurniture :: "string \<Rightarrow> string \<Rightarrow> designer \<Rightarrow> designer" where
  "renameFurniture furnitureId newName s =
     toast ''Furniture renamed''
       (s\<lparr>areas := mapFurniture
            (\<lambda>f. if f_id f = furnitureId then f\<lparr>f_name := newName\<rparr> else f) (areas s)\<rparr>)"

definition changeFurnitureColor :: "string \<Rightarrow> string \<Rightarrow> designer \<Rightarrow> designer" where
  "changeFurnitureColor furnitureId newColor s =
     s\<lparr>areas := mapFurniture
          (\<lambda>f. if f_id f = furnitureId then f\<lparr>f_color := Some newColor\<rparr> else f) (areas s)\<rparr>"

definition deleteFurniture :: "string \<Rightarrow> designer \<Rightarrow> designer" where
  "deleteFurniture furnitureId s =
     toast ''Furniture deleted''
       (s\<lparr>areas := map (\<lambda>a. a\<lparr>a_furniture :=
                     map_option (filter (\<lambda>f. f_id f \<noteq> furnitureId)) (a_furniture a)\<rparr>) (areas s),
          selectedFurnitureItem := None\<rparr>)"

text \<open>The candidate size of the resize branch, computed from the handle and the pointer.\<close>

definition clamp20_300 :: "real \<Rightarrow> real" where
  "clamp20_300 v = max 20 (min 300 v)"

definition proposedSize :: "handle \<Rightarrow> FurnitureItem \<Rightarrow> Point \<Rightarrow> Size" where
  "proposedSize h item point =
     (let newWidth = width (f_size item);
          newHeight = height (f_size item);
          newWidth = (if handle_includes h CHR ''e''
                      then clamp20_300 ((px point - px (f_position item)) * 2) else newWidth);
          newWidth = (if handle_includes h CHR ''w''
                      then clamp20_300 ((px (f_position item) - px point) * 2) else newWidth);
          newHeight = (if handle_includes h CHR ''s''
                       then clamp20_300 ((py point - py (f_position item)) * 2) else newHeight);
          newHeight = (if handle_includes h CHR ''n''
                       then clamp20_300 ((py (f_position item) - py point) * 2) else newHeight)
      in \<lparr>width = newWidth, height = newHeight\<rparr>)"

text \<open>
  \<^verbatim>\<open>handleCanvasMouseMove\<close> has two blocks, \<^verbatim>\<open>// Handle resizing\<close> (entered when
  \<^verbatim>\<open>isResizingFurniture && resizingFurnitureId && resizeHandle\<close>, and always left by
  \<^verbatim>\<open>return\<close>) and \<^verbatim>\<open>// Handle dragging\<close>.
\<close>

definition resizing :: "designer \<Rightarrow> bool" where
  "resizing s =
     (isResizingFurniture s \<and> truthy (resizingFurnitureId s) \<and> resizeHandle s \<noteq> None)"

definition handleResizeMove :: "designer \<Rightarrow> Point \<Rightarrow> designer" where
  "handleResizeMove s point =
     (case find (\<lambda>f. Some (f_id f) = resizingFurnitureId s) (allFurniture (areas s)) of
        None \<Rightarrow> s
      | Some item \<Rightarrow>
          (case find (\<lambda>a. a_id a = f_areaId item) (areas s) of
             None \<Rightarrow> s
           | Some ar \<Rightarrow>
               (case resizeHandle s of
                  None \<Rightarrow> s
                | Some h \<Rightarrow>
                    (let proposed = proposedSize h item point in
                     if areCornersInsideArea (a_points ar) (f_position item) proposed
                     then resizeFurniture (f_id item) proposed s
                     else s))))"

definition handleDragMove :: "designer \<Rightarrow> Point \<Rightarrow> designer" where
  "handleDragMove s point =
     (if \<not> isDraggingFurniture s \<or> \<not> truthy (draggedFurniture s) then s
      else
        (case find (\<lambda>f. Some (f_id f) = draggedFurniture s) (allFurniture (areas s)) of
           None \<Rightarrow> s
         | Some draggedItem \<Rightarrow>
             (case find (\<lambda>a. a_id a = f_areaId draggedItem) (areas s) of
                None \<Rightarrow> s
              | Some ar \<Rightarrow>
                  if \<not> areCornersInsideArea (a_points ar) point (f_size draggedItem) then s
                  else s\<lparr>areas := mapFurniture
                         (\<lambda>f. if Some (f_id f) = draggedFurniture s
                              then f\<lparr>f_position := point\<rparr> else f) (areas s)\<rparr>)))"

definition handleCanvasMouseMove :: "designer \<Rightarrow> MouseEvent \<Rightarrow> designer" where
  "handleCanvasMouseMove s e =
     (let point = getMousePos s e in
      if resizing s then handleResizeMove s point else handleDragMove s point)"

definition handleCanvasMouseUp :: "designer \<Rightarrow> designer" where
  "handleCanvasMouseUp s =
     s\<lparr>isDraggingFurniture := False, draggedFurniture := None,
       dragStartPos := \<lparr>px = 0, py = 0\<rparr>, isResizingFurniture := False,
       resizingFurnitureId := None, resizeHandle := None\<rparr>"

definition defaultColors :: "string \<Rightarrow> string" where
  "defaultColors key =
     (case map_of
        [(''bed'', ''#8B4513''), (''wardrobe'', ''#654321''), (''dresser'', ''#A0522D''),
         (''nightstand'', ''#DEB887''), (''sofa'', ''#4A90E2''), (''chair'', ''#50C878''),
         (''table'', ''#DEB887''), (''tv'', ''#2C2C2C''), (''sink'', ''#808080''),
         (''refrigerator'', ''#2C3E50''), (''stove'', ''#C0392B'')] key of
        Some c \<Rightarrow> c
      | None \<Rightarrow> ''#8B4513'')"

text \<open>
  \<^verbatim>\<open>prev.map(area => area.id === id ? {...area, furniture: [...(area.furniture || []), item]} : area)\<close>
\<close>

definition appendFurniture :: "string \<Rightarrow> FurnitureItem \<Rightarrow> AreaData list \<Rightarrow> AreaData list" where
  "appendFurniture aid item as =
     map (\<lambda>a. if a_id a = aid
              then a\<lparr>a_furniture := Some (furnitureOrEmpty a @ [item])\<rparr>
              else a) as"

text \<open>
  \<^verbatim>\<open>placeFurniture(position)\<close>; \<open>now\<close> is the clock reading that names the item.
\<close>

definition placeFurniture :: "Point \<Rightarrow> nat \<Rightarrow> designer \<Rightarrow> designer" where
  "placeFurniture position now s =
     (case (selectedFurniture s, selectedArea s) of
        (Some selFurniture, Some selArea) \<Rightarrow>
          if selFurniture = [] \<or> selArea = [] then s
          else
            (case find (\<lambda>a. a_id a = selArea) (areas s) of
               None \<Rightarrow> toast ''Please click inside the selected area'' s
             | Some ar \<Rightarrow>
                 if \<not> isPointInPolygon position (a_points ar)
                 then toast ''Please click inside the selected area'' s
                 else
                   (let furnitureItem =
                          \<lparr>f_id = ''furniture-'' @ string_of_nat now,
                           f_name = selFurniture,
                           f_position = position,
                           f_areaId = selArea,
                           f_size = \<lparr>width = 30, height = 30\<rparr>,
                           f_color = Some (defaultColors (toLowerCase selFurniture))\<rparr>
                    in toast (selFurniture @ '' placed in '' @ getAreaName (a_type ar))
                         (s\<lparr>areas := appendFurniture selArea furnitureItem (areas s),
                            selectedFurniture := None,
                            selectedArea := None,
                            isPlacingFurniture := False\<rparr>)))
      | _ \<Rightarrow> s)"

definition distance :: "Point \<Rightarrow> Point \<Rightarrow> real" where
  "distance p q = sqrt ((px p - px q)\<^sup>2 + (py p - py q)\<^sup>2)"

text \<open>
  The body of \<^verbatim>\<open>handleCanvasClick\<close> after the pointer has been mapped to the world
  point; \<open>currentTime\<close> and \<open>idTime\<close> are the two readings of the clock.
\<close>

definition handleCanvasClickAt :: "Point \<Rightarrow> nat \<Rightarrow> nat \<Rightarrow> designer \<Rightarrow> designer" where
  "handleCanvasClickAt point currentTime idTime s0 =
     (let isDoubleClick = int currentTime - int (lastClickTime s0) < 300;
          s = s0\<lparr>lastClickTime := currentTime\<rparr>
      in
      if isPlacingFurniture s then placeFurniture point idTime s
      else
        (case getFurnitureAtPoint (areas s) point of
           Some clickedFurniture \<Rightarrow>
             if isDoubleClick \<and> selectedFurnitureItem s = Some (f_id clickedFurniture) then
               toast (''Double-click detected - Resize handles '' @
                      (if showResizeHandles s = Some (f_id clickedFurniture)
                       then ''hidden'' else ''shown''))
                 (s\<lparr>showResizeHandles :=
                      (if showResizeHandles s = Some (f_id clickedFurniture)
                       then None else Some (f_id clickedFurniture))\<rparr>)
             else
               s\<lparr>selectedFurnitureItem := Some (f_id clickedFurniture),
                 showResizeHandles := None,
                 interactionMode := FurnitureMode\<rparr>
         | None \<Rightarrow>
             (let s1 = s\<lparr>selectedFurnitureItem := None, showResizeHandles := None\<rparr> in
              if interactionMode s1 \<noteq> AreaMode then s1
              else if isDrawingPolygon s1 then
                (if length (currentPolygon s1) > 2 \<and>
                    distance point (currentPolygon s1 ! 0) < 10
                 then
                   (let areaSqFt = calculatePolygonArea (currentPolygon s1);
                        newArea =
                          \<lparr>a_id = ''area-'' @ string_of_nat idTime,
                           a_type = selectedAreaType s1,
                           a_points = currentPolygon s1,
                           a_areaSqFt = areaSqFt,
                           a_color = getAreaColor (selectedAreaType s1),
                           a_furniture = None\<rparr>
                    in toast (getAreaName (selectedAreaType s1) @ '' created ('' @
                              string_of_number areaSqFt @ '' sq ft)'')
                         (s1\<lparr>areas := areas s1 @ [newArea],
                             currentPolygon := [],
                             isDrawingPolygon := False\<rparr>))
                 else s1\<lparr>currentPolygon := currentPolygon s1 @ [point]\<rparr>)
              else s1\<lparr>currentPolygon := [point], isDrawingPolygon := True\<rparr>)))"

definition handleCanvasClick :: "designer \<Rightarrow> MouseEvent \<Rightarrow> nat \<Rightarrow> nat \<Rightarrow> designer" where
  "handleCanvasClick s e currentTime idTime =
     handleCanvasClickAt (getMousePos s e) currentTime idTime s"

subsection \<open>Look-ups and predicates used to state the properties\<close>

text \<open>
  \<^verbatim>\<open>areas.flatMap(a => a.furniture || []).find(f => f.id === id)\<close> and
  \<^verbatim>\<open>areas.find(a => a.id === id)\<close>, the two look-ups of the pointer handlers and of
  the toolbar.
\<close>

definition findFurniture :: "AreaData list \<Rightarrow> string \<Rightarrow> FurnitureItem option" where
  "findFurniture as fid = find (\<lambda>f. f_id f = fid) (allFurniture as)"

definition findArea :: "AreaData list \<Rightarrow> string \<Rightarrow> AreaData option" where
  "findArea as aid = find (\<lambda>a. a_id a = aid) as"

text \<open>
  The containment invariant of one item: the item is found, the area named by its
  \<open>areaId\<close> is found, and the four corners of its rectangle are inside that polygon.
\<close>

definition furnitureContained :: "AreaData list \<Rightarrow> string \<Rightarrow> bool" where
  "furnitureContained as fid =
     (case findFurniture as fid of
        None \<Rightarrow> False
      | Some item \<Rightarrow>
          (case findArea as (f_areaId item) of
             None \<Rightarrow> False
           | Some ar \<Rightarrow> areCornersInsideArea (a_points ar) (f_position item) (f_size item)))"



text \<open>Two items, and two areas, that agree on every field but the sizes of the items.\<close>

definition sameExceptSize :: "FurnitureItem \<Rightarrow> FurnitureItem \<Rightarrow> bool" where
  "sameExceptSize f f' =
     (f_id f' = f_id f \<and> f_name f' = f_name f \<and> f_position f' = f_position f \<and>
      f_areaId f' = f_areaId f \<and> f_color f' = f_color f)"

definition sameAreaExceptSizes :: "AreaData \<Rightarrow> AreaData \<Rightarrow> bool" where
  "sameAreaExceptSizes a a' =
     (a_id a' = a_id a \<and> a_type a' = a_type a \<and> a_points a' = a_points a \<and>
      a_areaSqFt a' = a_areaSqFt a \<and> a_color a' = a_color a \<and>
      rel_option (list_all2 sameExceptSize) (a_furniture a) (a_furniture a'))"




subsection \<open>Sample states\<close>

text \<open>The state of a freshly mounted designer, as the \<^verbatim>\<open>useState\<close> calls give it.\<close>

definition initial :: designer where
  "initial =
     \<lparr>selectedAreaType = ''bedroom'', areas = [], zoomLevel = 1, panOffset = pt 0 0,
      isDrawingPolygon = False, currentPolygon = [],
      selectedFurniture = None, selectedArea = None, isPlacingFurniture = False,
      draggedFurniture = None, isDraggingFurniture = False, dragStartPos = pt 0 0,
      selectedFurnitureItem = None, isResizingFurniture = False,
      resizingFurnitureId = None, resizeHandle = None, showResizeHandles = None,
      interactionMode = AreaMode, lastClickTime = 0, canvasRect = Some (pt 0 0),
      toasts = []\<rparr>"

text \<open>
  A triangular room with corners (0,0), (200,0), (0,200) that holds one 30 by 30 chair
  centred at (40,40).
\<close>

definition chair :: FurnitureItem where
  "chair =
     \<lparr>f_id = ''furniture-1'', f_name = ''chair'', f_position = pt 40 40,
      f_areaId = ''area-1'', f_size = \<lparr>width = 30, height = 30\<rparr>,
      f_color = Some ''#50C878''\<rparr>"

definition triangleRoom :: AreaData where
  "triangleRoom =
     \<lparr>a_id = ''area-1'', a_type = ''bedroom'',
      a_points = [pt 0 0, pt 200 0, pt 0 200], a_areaSqFt = 50,
      a_color = ''#3b82f6'', a_furniture = Some [chair]\<rparr>"

definition furnished :: designer where
  "furnished = initial\<lparr>areas := [triangleRoom], interactionMode := FurnitureMode,
                       selectedFurnitureItem := Some ''furniture-1''\<rparr>"

definition whileResizing :: designer where
  "whileResizing = furnished\<lparr>isResizingFurniture := True,
                             resizingFurnitureId := Some ''furniture-1'',
                             resizeHandle := Some se\<rparr>"

definition whileDragging :: designer where
  "whileDragging = furnished\<lparr>isDraggingFurniture := True,
                             draggedFurniture := Some ''furniture-1'',
                             dragStartPos := pt 40 40\<rparr>"

text \<open>
  A plan in which two items carry the id \<^verbatim>\<open>furniture-1\<close>: the chair of the triangular
  room, and a second chair centred at (440,440) in a square room with corners (400,400),
  (500,400), (500,500), (400,500).  \<open>twinDragging\<close> is the drag that a pointer press on
  the second chair starts: \<^verbatim>\<open>handleCanvasMouseDown\<close> stores the id of the item it hits.
\<close>

definition twin :: FurnitureItem where
  "twin = chair\<lparr>f_position := pt 440 440, f_areaId := ''area-2''\<rparr>"

definition squareRoom :: AreaData where
  "squareRoom =
     \<lparr>a_id = ''area-2'', a_type = ''kitchen'',
      a_points = [pt 400 400, pt 500 400, pt 500 500, pt 400 500], a_areaSqFt = 25,
      a_color = ''#ef4444'', a_furniture = Some [twin]\<rparr>"


text \<open>A drawing session that holds the three points (0,0), (100,0), (100,100).\<close>

definition triangle100 :: "Point list" where
  "triangle100 = [pt 0 0, pt 100 0, pt 100 100]"

definition drawingTriangle :: designer where
  "drawingTriangle = initial\<lparr>isDrawingPolygon := True, currentPolygon := triangle100\<rparr>"

text \<open>
  The triangular room without furniture, with a chair picked from the catalogue and
  waiting to be placed in it: on the desktop and on the mobile designer.
\<close>

definition emptyRoom :: AreaData where
  "emptyRoom = triangleRoom\<lparr>a_furniture := None\<rparr>"

definition placingChair :: designer where
  "placingChair = initial\<lparr>areas := [emptyRoom], selectedFurniture := Some ''chair'',
                          selectedArea := Some ''area-1'', isPlacingFurniture := True,
                          interactionMode := FurnitureMode\<rparr>"

definition mouseAt :: "real \<Rightarrow> real \<Rightarrow> MouseEvent" where
  "mouseAt a b = \<lparr>clientX = a, clientY = b\<rparr>"

section \<open>The mobile designer (MobileCanvasDesignerV2)\<close>

text \<open>
  On a mobile device \<^verbatim>\<open>CanvasDesigner\<close> renders \<^verbatim>\<open>MobileCanvasDesignerV2\<close> instead.
  It has its own state cells (prefixed \<open>m_\<close> here), its own tap handler, and a
  long-press timer.  The pending \<^verbatim>\<open>setTimeout\<close> callbacks are part of the model:
  \<open>m_timers\<close> lists handle, due time and action of every timer that is scheduled and
  neither fired nor cleared, in the order of scheduling.
\<close>

datatype jsError = TypeError | SyntaxError

record PendingFurniture =
  pf_name :: string
  pf_areaId :: string

text \<open>
  The callback of the long-press timer closes over the tapped point and over the
  \<^verbatim>\<open>areas\<close> of the render that scheduled it.
\<close>

datatype timerAction = LongPress Point "AreaData list" | ClearHighlight

record mobile =
  m_selectedAreaType :: string
  m_showGrid :: bool
  m_areas :: "AreaData list"
  m_zoomLevel :: real
  m_panOffset :: Point
  m_isDrawingPolygon :: bool
  m_currentPolygon :: "Point list"
  m_selectedFurnitureItem :: "string option"
  m_isPlacingFurniture :: bool
  m_pendingFurniture :: "PendingFurniture option"
  m_editPanelOpen :: bool
  m_editingFurniture :: "FurnitureItem option"
  m_longPressTimer :: "nat option"
  m_touchStartPos :: Point
  m_touchStartTime :: nat
  m_highlightedCell :: "Point option"
  m_canvasRect :: "Point option"
  m_toasts :: "string list"
  m_timers :: "(nat \<times> nat \<times> timerAction) list"
  m_nextTimer :: nat

definition m_toast :: "string \<Rightarrow> mobile \<Rightarrow> mobile" where
  "m_toast msg s = s\<lparr>m_toasts := m_toasts s @ [msg]\<rparr>"

definition setTimeout :: "timerAction \<Rightarrow> nat \<Rightarrow> nat \<Rightarrow> mobile \<Rightarrow> nat \<times> mobile" where
  "setTimeout action delay now s =
     (m_nextTimer s,
      s\<lparr>m_timers := m_timers s @ [(m_nextTimer s, now + delay, action)],
        m_nextTimer := Suc (m_nextTimer s)\<rparr>)"

definition clearTimeout :: "nat \<Rightarrow> mobile \<Rightarrow> mobile" where
  "clearTimeout timer s = s\<lparr>m_timers := filter (\<lambda>t. fst t \<noteq> timer) (m_timers s)\<rparr>"

definition getCanvasPoint :: "mobile \<Rightarrow> real \<Rightarrow> real \<Rightarrow> Point" where
  "getCanvasPoint s cX cY =
     (case m_canvasRect s of
        None \<Rightarrow> \<lparr>px = 0, py = 0\<rparr>
      | Some rect \<Rightarrow>
          (let x = (cX - px rect) / m_zoomLevel s - px (m_panOffset s);
               y = (cY - py rect) / m_zoomLevel s - py (m_panOffset s)
           in \<lparr>px = snapToGrid x, py = snapToGrid y\<rparr>))"

definition handleLongPress :: "Point \<Rightarrow> AreaData list \<Rightarrow> mobile \<Rightarrow> mobile" where
  "handleLongPress point closureAreas s =
     (case getFurnitureAtPoint closureAreas point of
        Some f \<Rightarrow>
          m_toast ''Furniture selected''
            (s\<lparr>m_selectedFurnitureItem := Some (f_id f),
               m_editingFurniture := Some f,
               m_editPanelOpen := True\<rparr>)
      | None \<Rightarrow> s)"

text \<open>
  \<^verbatim>\<open>handleCanvasTap(point)\<close>.  Reading \<^verbatim>\<open>currentPolygon[0].x\<close> of an empty
  polygon throws.
\<close>

definition handleCanvasTap :: "Point \<Rightarrow> nat \<Rightarrow> mobile \<Rightarrow> jsError + mobile" where
  "handleCanvasTap point now s =
     (if m_isPlacingFurniture s \<and> m_pendingFurniture s \<noteq> None then
        (case m_pendingFurniture s of
           None \<Rightarrow> Inr s
         | Some pending \<Rightarrow>
             (case find (\<lambda>a. a_id a = pf_areaId pending) (m_areas s) of
                None \<Rightarrow> Inr (m_toast ''Place furniture inside the area'' s)
              | Some targetArea \<Rightarrow>
                  if isPointInPolygon point (a_points targetArea) then
                    (let newFurniture =
                           \<lparr>f_id = ''furniture-'' @ string_of_nat now,
                            f_name = pf_name pending,
                            f_position = point,
                            f_areaId = pf_areaId pending,
                            f_size = \<lparr>width = 60, height = 40\<rparr>,
                            f_color = Some ''#8B4513''\<rparr>
                     in Inr (m_toast (pf_name pending @ '' placed'')
                          (s\<lparr>m_areas := appendFurniture (pf_areaId pending) newFurniture (m_areas s),
                             m_isPlacingFurniture := False,
                             m_pendingFurniture := None\<rparr>)))
                  else Inr (m_toast ''Place furniture inside the area'' s)))
      else
        (case getFurnitureAtPoint (m_areas s) point of
           Some f \<Rightarrow> Inr (s\<lparr>m_selectedFurnitureItem := Some (f_id f)\<rparr>)
         | None \<Rightarrow>
             (let s1 = s\<lparr>m_selectedFurnitureItem := None\<rparr> in
              if \<not> m_isDrawingPolygon s1 then
                Inr (m_toast ''Area started - tap to add points, tap start point to finish''
                       (s1\<lparr>m_isDrawingPolygon := True, m_currentPolygon := [point]\<rparr>))
              else
                (case m_currentPolygon s1 of
                   [] \<Rightarrow> Inl TypeError
                 | firstPoint # _ \<Rightarrow>
                     if distance point firstPoint < 40 \<and> length (m_currentPolygon s1) \<ge> 3 then
                       (let newArea =
                              \<lparr>a_id = ''area-'' @ string_of_nat now,
                               a_type = m_selectedAreaType s1,
                               a_points = m_currentPolygon s1,
                               a_areaSqFt = calculatePolygonArea (m_currentPolygon s1),
                               a_color = getAreaColor (m_selectedAreaType s1),
                               a_furniture = Some []\<rparr>
                        in Inr (m_toast (m_selectedAreaType s1 @ '' area created ('' @
                                         string_of_number (a_areaSqFt newArea) @ '' sq ft)'')
                             (s1\<lparr>m_areas := m_areas s1 @ [newArea],
                                 m_currentPolygon := [],
                                 m_isDrawingPolygon := False\<rparr>)))
                     else Inr (s1\<lparr>m_currentPolygon := m_currentPolygon s1 @ [point]\<rparr>)))))"

datatype eventType = touchstart | touchmove | touchend | mousedown | mousemove | mouseup

record Touch =
  t_clientX :: real
  t_clientY :: real

text \<open>
  A React touch event carries \<^verbatim>\<open>touches\<close>, the contacts still on the surface, and
  \<^verbatim>\<open>changedTouches\<close>, the contacts this event is about; a mouse event carries its
  client coordinates.  When the only finger is lifted, the \<^verbatim>\<open>touchend\<close> event has no
  \<^verbatim>\<open>touches\<close> and one changed touch.
\<close>

datatype canvasEvent =
  TouchEvent eventType "Touch list" "Touch list"
| MouseEvt eventType real real

definition cancelLongPress :: "mobile \<Rightarrow> mobile" where
  "cancelLongPress s =
     (case m_longPressTimer s of
        Some timer \<Rightarrow> (clearTimeout timer s)\<lparr>m_longPressTimer := None\<rparr>
      | None \<Rightarrow> s)"

text \<open>
  The part of \<^verbatim>\<open>handleCanvasTouch\<close> after the client coordinates are known.  The
  readings of the clock within one event are taken to be equal: \<open>now\<close>.
\<close>

definition touchAt :: "eventType \<Rightarrow> real \<Rightarrow> real \<Rightarrow> bool \<Rightarrow> nat \<Rightarrow> mobile \<Rightarrow> jsError + mobile" where
  "touchAt ty cX cY isTouchEvent now s =
     (let point = getCanvasPoint s cX cY in
      if ty = touchstart \<or> ty = mousedown then
        (let s1 = s\<lparr>m_touchStartPos := point, m_touchStartTime := now,
                    m_highlightedCell := Some point\<rparr>
         in if isTouchEvent then
              (case setTimeout (LongPress point (m_areas s)) 600 now s1 of
                 (timer, s2) \<Rightarrow> Inr (s2\<lparr>m_longPressTimer := Some timer\<rparr>))
            else Inr s1)
      else if ty = touchend \<or> ty = mouseup then
        (let s1 = cancelLongPress s;
             timeDiff = int now - int (m_touchStartTime s);
             dist = distance point (m_touchStartPos s)
         in case (if dist < 20 \<and> timeDiff < 500 then handleCanvasTap point now s1 else Inr s1) of
              Inl err \<Rightarrow> Inl err
            | Inr s2 \<Rightarrow> Inr (snd (setTimeout ClearHighlight 200 now s2)))
      else if ty = touchmove \<or> ty = mousemove then
        Inr ((cancelLongPress s)\<lparr>m_highlightedCell := Some point\<rparr>)
      else Inr s)"

text \<open>
  \<^verbatim>\<open>handleCanvasTouch\<close>: for a touch event,
  \<^verbatim>\<open>if (e.touches.length !== 1) return;\<close> comes before anything else.
\<close>

definition handleCanvasTouch :: "canvasEvent \<Rightarrow> nat \<Rightarrow> mobile \<Rightarrow> jsError + mobile" where
  "handleCanvasTouch e now s =
     (case e of
        TouchEvent ty touches changedTouches \<Rightarrow>
          (case touches of
             [touch] \<Rightarrow> touchAt ty (t_clientX touch) (t_clientY touch) True now s
           | _ \<Rightarrow> Inr s)
      | MouseEvt ty cX cY \<Rightarrow> touchAt ty cX cY False now s)"

text \<open>
  The event loop runs the callbacks of the timers that are due, earliest first and in
  the order of scheduling among equals, and removes them.
\<close>

definition fireTimer :: "timerAction \<Rightarrow> mobile \<Rightarrow> mobile" where
  "fireTimer action s =
     (case action of
        LongPress point closureAreas \<Rightarrow> handleLongPress point closureAreas s
      | ClearHighlight \<Rightarrow> s\<lparr>m_highlightedCell := None\<rparr>)"

definition runTimers :: "nat \<Rightarrow> mobile \<Rightarrow> mobile" where
  "runTimers now s =
     (let due = filter (\<lambda>t. fst (snd t) \<le> now) (m_timers s);
          later = filter (\<lambda>t. \<not> fst (snd t) \<le> now) (m_timers s)
      in fold (\<lambda>t. fireTimer (snd (snd t))) (sort_key (\<lambda>t. fst (snd t)) due)
           (s\<lparr>m_timers := later\<rparr>))"

text \<open>One delivered event: the timers due by then run first, then the handler.\<close>

definition deliver :: "nat \<times> canvasEvent \<Rightarrow> mobile \<Rightarrow> jsError + mobile" where
  "deliver te s = handleCanvasTouch (snd te) (fst te) (runTimers (fst te) s)"

definition m_initial :: mobile where
  "m_initial =
     \<lparr>m_selectedAreaType = ''bedroom'', m_showGrid = True, m_areas = [],
      m_zoomLevel = 0.4, m_panOffset = pt 200 200,
      m_isDrawingPolygon = False, m_currentPolygon = [],
      m_selectedFurnitureItem = None, m_isPlacingFurniture = False,
      m_pendingFurniture = None, m_editPanelOpen = False, m_editingFurniture = None,
      m_longPressTimer = None, m_touchStartPos = pt 0 0, m_touchStartTime = 0,
      m_highlightedCell = None, m_canvasRect = Some (pt 0 0), m_toasts = [],
      m_timers = [], m_nextTimer = 1\<rparr>"

definition m_placingChair :: mobile where
  "m_placingChair = m_initial\<lparr>m_areas := [emptyRoom], m_isPlacingFurniture := True,
       m_pendingFurniture := Some \<lparr>pf_name = ''chair'', pf_areaId = ''area-1''\<rparr>\<rparr>"

section \<open>JSON import\<close>

text \<open>
  The value that \<^verbatim>\<open>JSON.parse\<close> returns.  A JavaScript value that may also be
  \<^verbatim>\<open>undefined\<close> is a \<open>json option\<close>, with \<open>None\<close> for \<^verbatim>\<open>undefined\<close>.  An object
  is the list of its own properties.
\<close>

datatype json =
  JNull | JBool bool | JNum real | JStr string | JArr "json list" | JObj "(string \<times> json) list"

text \<open>What the file input hands over: no file, a text that does not parse, or a value.\<close>

datatype upload = NoFile | Unparsable | Parsed json

fun js_truthy :: "json option \<Rightarrow> bool" where
  "js_truthy None = False"
| "js_truthy (Some JNull) = False"
| "js_truthy (Some (JBool b)) = b"
| "js_truthy (Some (JNum r)) = (r \<noteq> 0)"
| "js_truthy (Some (JStr str)) = (str \<noteq> [])"
| "js_truthy (Some (JArr xs)) = True"
| "js_truthy (Some (JObj kvs)) = True"

fun nullish :: "json option \<Rightarrow> bool" where
  "nullish None = True"
| "nullish (Some JNull) = True"
| "nullish (Some v) = False"

fun isArray :: "json option \<Rightarrow> bool" where
  "isArray (Some (JArr xs)) = True"
| "isArray v = False"

text \<open>
  \<^verbatim>\<open>v.key\<close> on a value that is neither \<^verbatim>\<open>null\<close> nor \<^verbatim>\<open>undefined\<close>, for the keys
  the import reads (none of them is a built-in property of a string, number, boolean,
  array or object): the own property of an object, \<^verbatim>\<open>undefined\<close> otherwise.
\<close>

fun property :: "json \<Rightarrow> string \<Rightarrow> json option" where
  "property (JObj kvs) key = map_of kvs key"
| "property v key = None"

text \<open>\<^verbatim>\<open>v?.key\<close>\<close>

definition optProp :: "json option \<Rightarrow> string \<Rightarrow> json option" where
  "optProp v key = (case v of None \<Rightarrow> None | Some JNull \<Rightarrow> None | Some w \<Rightarrow> property w key)"

text \<open>\<^verbatim>\<open>p[i]\<close> on an array\<close>

definition element :: "json list \<Rightarrow> nat \<Rightarrow> json option" where
  "element xs i = (if i < length xs then Some (xs ! i) else None)"

text \<open>
  The state of the designer is typed: an id is a string, a coordinate a real number.
  JavaScript goes on with whatever the file holds, so converting a file can end in three
  ways: it throws (and the \<^verbatim>\<open>catch\<close> block runs), it yields values that the typed
  state can hold, or it yields values outside the typed state (a \<^verbatim>\<open>NaN\<close> coordinate, an
  id that is a number, a string used as a number).  The last case is \<open>Untyped\<close>; nothing
  is stated about it.  A throw anywhere in the conversion wins over \<open>Untyped\<close>, as the
  program would have reached it.
\<close>

datatype stop = Thrown | Untyped

fun both :: "stop + 'a \<Rightarrow> stop + 'b \<Rightarrow> stop + ('a \<times> 'b)" where
  "both (Inl Thrown) q = Inl Thrown"
| "both (Inl Untyped) (Inl Thrown) = Inl Thrown"
| "both (Inl Untyped) q = Inl Untyped"
| "both (Inr a) (Inl e) = Inl e"
| "both (Inr a) (Inr b) = Inr (a, b)"

fun allOf :: "(stop + 'a) list \<Rightarrow> stop + 'a list" where
  "allOf [] = Inr []"
| "allOf (r # rs) = map_sum (\<lambda>e. e) (\<lambda>(a, as). a # as) (both r (allOf rs))"

text \<open>A value used as a number in \<^verbatim>\<open>v * GRID_SIZE\<close>.\<close>

fun asNumber :: "json option \<Rightarrow> stop + real" where
  "asNumber (Some (JNum r)) = Inr r"
| "asNumber (Some JNull) = Inr 0"
| "asNumber (Some (JBool b)) = Inr (if b then 1 else 0)"
| "asNumber v = Inl Untyped"

text \<open>A truthy value stored in a field of type string.\<close>

fun asString :: "json option \<Rightarrow> stop + string" where
  "asString (Some (JStr str)) = Inr str"
| "asString v = Inl Untyped"

text \<open>\<^verbatim>\<open>v || fallback\<close> for a string field\<close>

definition orString :: "json option \<Rightarrow> string \<Rightarrow> stop + string" where
  "orString v fallback = (if js_truthy v then asString v else Inr fallback)"

text \<open>
  One point of \<^verbatim>\<open>a.points\<close>:
  \<^verbatim>\<open>{ x: (Array.isArray(p) ? p[0] : p.xFt ?? p.x) * GRID_SIZE, y: ... }\<close>
\<close>

definition importPoint :: "json \<Rightarrow> stop + Point" where
  "importPoint p =
     (case p of
        JNull \<Rightarrow> Inl Thrown
      | JArr xs \<Rightarrow>
          map_sum (\<lambda>e. e) (\<lambda>(a, b). \<lparr>px = a * GRID_SIZE, py = b * GRID_SIZE\<rparr>)
            (both (asNumber (element xs 0)) (asNumber (element xs 1)))
      | _ \<Rightarrow>
          map_sum (\<lambda>e. e) (\<lambda>(a, b). \<lparr>px = a * GRID_SIZE, py = b * GRID_SIZE\<rparr>)
            (both (asNumber (if nullish (property p ''xFt'') then property p ''x'' else property p ''xFt''))
                  (asNumber (if nullish (property p ''yFt'') then property p ''y'' else property p ''yFt''))))"

text \<open>
  \<^verbatim>\<open>f.position?.xFt ?? (typeof f.position?.x === 'number' ? f.position.x / GRID_SIZE : dflt)\<close>
\<close>

definition feetOr :: "json option \<Rightarrow> string \<Rightarrow> string \<Rightarrow> real \<Rightarrow> json option" where
  "feetOr v feetKey pixelKey dflt =
     (if nullish (optProp v feetKey) then
        (case optProp v pixelKey of
           Some (JNum r) \<Rightarrow> Some (JNum (r / GRID_SIZE))
         | _ \<Rightarrow> Some (JNum dflt))
      else optProp v feetKey)"

text \<open>
  One item of \<^verbatim>\<open>a.furniture\<close>; \<open>freshId\<close> stands for the random text of
  \<^verbatim>\<open>crypto.randomUUID?.() || Math.random().toString(36).slice(2)\<close>.
\<close>

definition importFurniture :: "string \<Rightarrow> string \<Rightarrow> json \<Rightarrow> stop + FurnitureItem" where
  "importFurniture freshId areaIdent f =
     (case f of
        JNull \<Rightarrow> Inl Thrown
      | _ \<Rightarrow>
          (let posXFt = feetOr (property f ''position'') ''xFt'' ''x'' 0;
               posYFt = feetOr (property f ''position'') ''yFt'' ''y'' 0;
               widthFt = feetOr (property f ''size'') ''widthFt'' ''width'' 1.5;
               heightFt = feetOr (property f ''size'') ''heightFt'' ''height'' 1.5
           in map_sum (\<lambda>e. e)
                (\<lambda>((ident, nm, col), (x, y), (w, h)).
                   \<lparr>f_id = ident, f_name = nm,
                    f_position = \<lparr>px = x * GRID_SIZE, py = y * GRID_SIZE\<rparr>,
                    f_areaId = areaIdent,
                    f_size = \<lparr>width = max 10 (w * GRID_SIZE), height = max 10 (h * GRID_SIZE)\<rparr>,
                    f_color = col\<rparr>)
                (both
                   (both (orString (property f ''id'') (''furniture-'' @ freshId))
                      (both (orString (property f ''name'') ''item'')
                         (if js_truthy (property f ''color'')
                          then map_sum (\<lambda>e. e) Some (asString (property f ''color''))
                          else Inr None)))
                   (both (both (asNumber posXFt) (asNumber posYFt))
                         (both (asNumber widthFt) (asNumber heightFt))))))"

text \<open>\<^verbatim>\<open>(v || []).map(g)\<close>: calling \<^verbatim>\<open>map\<close> on a truthy value that is no array throws.\<close>

definition orEmptyMap :: "json option \<Rightarrow> (nat \<times> json \<Rightarrow> stop + 'a) \<Rightarrow> stop + 'a list" where
  "orEmptyMap v g =
     (if \<not> js_truthy v then Inr []
      else (case v of
              Some (JArr xs) \<Rightarrow> allOf (map g (enumerate 0 xs))
            | _ \<Rightarrow> Inl Thrown))"

text \<open>
  One element of \<^verbatim>\<open>data.areas\<close>; \<open>fresh\<close> gives the random texts by position: of the
  area \<open>[i]\<close>, of its \<open>j\<close>-th item \<open>[i, j]\<close>.
\<close>

definition importArea :: "(nat list \<Rightarrow> string) \<Rightarrow> nat \<times> json \<Rightarrow> stop + AreaData" where
  "importArea fresh ia =
     (case ia of
        (i, a) \<Rightarrow>
          (case a of
             JNull \<Rightarrow> Inl Thrown
           | _ \<Rightarrow>
               (let ident = orString (property a ''id'') (''area-'' @ fresh [i]);
                    points = orEmptyMap (property a ''points'') (\<lambda>(j, p). importPoint p);
                    ty = asString (property a ''type'');
                    areaColor = (if js_truthy (property a ''color'') then asString (property a ''color'')
                                 else map_sum (\<lambda>e. e) getAreaColor ty);
                    areaSqFt = (if js_truthy (property a ''areaSqFt'')
                                then (case property a ''areaSqFt'' of
                                        Some (JNum r) \<Rightarrow> Inr r
                                      | _ \<Rightarrow> Inl Untyped)
                                else map_sum (\<lambda>e. e) calculatePolygonArea points);
                    items = orEmptyMap (property a ''furniture'')
                              (\<lambda>(j, f). importFurniture (fresh [i, j])
                                          (case ident of Inr str \<Rightarrow> str | Inl e \<Rightarrow> []) f)
                in map_sum (\<lambda>e. e)
                     (\<lambda>((idt, pts), (t, col), (sq, fs)).
                        \<lparr>a_id = idt, a_type = t, a_points = pts, a_areaSqFt = sq,
                         a_color = col, a_furniture = Some fs\<rparr>)
                     (both (both ident points) (both (both ty areaColor) (both areaSqFt items))))))"

text \<open>
  \<^verbatim>\<open>handleImportFile\<close> of the desktop designer.  Reading \<^verbatim>\<open>data.areas\<close> of
  \<^verbatim>\<open>null\<close> throws; every throw ends in the \<^verbatim>\<open>catch\<close> block.  The result is \<open>None\<close>
  when the converted values are outside the typed state.  After the state setters the
  handler resets the file input through \<^verbatim>\<open>e.currentTarget.value = ""\<close>; the handler
  is asynchronous, and whether \<^verbatim>\<open>e.currentTarget\<close> still is the input element at that
  point (\<open>targetAttached\<close>) is left to the environment: if it is not, the assignment throws
  after the state has been set.
\<close>

definition handleImportFile ::
  "(nat list \<Rightarrow> string) \<Rightarrow> bool \<Rightarrow> upload \<Rightarrow> designer \<Rightarrow> designer option" where
  "handleImportFile fresh targetAttached u s =
     (case u of
        NoFile \<Rightarrow> Some s
      | Unparsable \<Rightarrow> Some (toast ''Failed to import JSON'' s)
      | Parsed JNull \<Rightarrow> Some (toast ''Failed to import JSON'' s)
      | Parsed data \<Rightarrow>
          if \<not> js_truthy (property data ''areas'') \<or> \<not> isArray (property data ''areas'')
          then Some (toast ''Invalid file format'' s)
          else
            (case orEmptyMap (property data ''areas'') (importArea fresh) of
               Inl Thrown \<Rightarrow> Some (toast ''Failed to import JSON'' s)
             | Inl Untyped \<Rightarrow> None
             | Inr importedAreas \<Rightarrow>
                 (let s1 = s\<lparr>areas := importedAreas,
                              selectedFurnitureItem := None,
                              isPlacingFurniture := False\<rparr>
                  in if targetAttached
                     then Some (toast ''Import successful (areas + furniture)'' s1)
                     else Some (toast ''Failed to import JSON'' s1))))"

text \<open>
  \<^verbatim>\<open>handleImportJSON\<close> of the mobile designer hands the parsed values to the state
  setters as they are.  Its result is the list of the calls it makes, in order.
\<close>

datatype setterCall = SetAreas json | SetZoomLevel json | SetPanOffset json | Toast string

definition handleImportJSON :: "upload \<Rightarrow> setterCall list" where
  "handleImportJSON u =
     (case u of
        NoFile \<Rightarrow> []
      | Unparsable \<Rightarrow> [Toast ''Invalid file format'']
      | Parsed JNull \<Rightarrow> [Toast ''Invalid file format'']
      | Parsed data \<Rightarrow>
          (case property data ''areas'' of
             None \<Rightarrow> []
           | Some v \<Rightarrow>
               if js_truthy (Some v) then
                 [SetAreas v] @
                 (case property data ''zoomLevel'' of
                    None \<Rightarrow> []
                  | Some z \<Rightarrow> if js_truthy (Some z) then [SetZoomLevel z] else []) @
                 (case property data ''panOffset'' of
                    None \<Rightarrow> []
                  | Some po \<Rightarrow> if js_truthy (Some po) then [SetPanOffset po] else []) @
                 [Toast ''Floor plan imported'']
               else []))"

section \<open>The registry invariant and tap sequences\<close>

text \<open>Every area of the list has at least three points.\<close>

definition areasWellFormed :: "AreaData list \<Rightarrow> bool" where
  "areasWellFormed as = list_all (\<lambda>a. 3 \<le> length (a_points a)) as"

text \<open>
  A sequence of clicks on the desktop canvas, each with its world point and its two
  clock readings, and a sequence of taps on the mobile canvas, which ends at the first
  tap that throws.
\<close>

definition clickAll :: "(Point \<times> nat \<times> nat) list \<Rightarrow> designer \<Rightarrow> designer" where
  "clickAll clicks s = foldl (\<lambda>st (p, currentTime, idTime). handleCanvasClickAt p currentTime idTime st) s clicks"

fun tapAll :: "(Point \<times> nat) list \<Rightarrow> mobile \<Rightarrow> jsError + mobile" where
  "tapAll [] s = Inr s"
| "tapAll ((p, now) # taps) s =
     (case handleCanvasTap p now s of
        Inl err \<Rightarrow> Inl err
      | Inr s' \<Rightarrow> tapAll taps s')"

text \<open>
  A design file with one bedroom that has two points only:
  \<^verbatim>\<open>{"areas": [{"id": "a1", "type": "bedroom", "points": [[0,0],[5,0]]}]}\<close>
\<close>

definition twoPointFile :: json where
  "twoPointFile =
     JObj [(''areas'',
       JArr [JObj [(''id'', JStr ''a1''), (''type'', JStr ''bedroom''),
                   (''points'', JArr [JArr [JNum 0, JNum 0], JArr [JNum 5, JNum 0]])]])]"

definition twoPointArea :: AreaData where
  "twoPointArea =
     \<lparr>a_id = ''a1'', a_type = ''bedroom'', a_points = [pt 0 0, pt 100 0],
      a_areaSqFt = 0, a_color = ''#3b82f6'', a_furniture = Some []\<rparr>"

text \<open>
  A file with two rooms whose items both carry the id \<^verbatim>\<open>furniture-1\<close>; the import keeps
  the ids it reads.
\<close>

definition chairEntry :: "real \<Rightarrow> json" where
  "chairEntry ft =
     JObj [(''id'', JStr ''furniture-1''), (''name'', JStr ''chair''),
           (''position'', JObj [(''xFt'', JNum ft), (''yFt'', JNum ft)]),
           (''size'', JObj [(''widthFt'', JNum 1.5), (''heightFt'', JNum 1.5)]),
           (''color'', JStr ''#50C878'')]"

definition twinFile :: json where
  "twinFile =
     JObj [(''areas'',
       JArr [JObj [(''id'', JStr ''area-1''), (''type'', JStr ''bedroom''),
                   (''points'', JArr [JArr [JNum 0, JNum 0], JArr [JNum 10, JNum 0],
                                      JArr [JNum 0, JNum 10]]),
                   (''areaSqFt'', JNum 50),
                   (''furniture'', JArr [chairEntry 2])],
             JObj [(''id'', JStr ''area-2''), (''type'', JStr ''kitchen''),
                   (''points'', JArr [JArr [JNum 20, JNum 20], JArr [JNum 25, JNum 20],
                                      JArr [JNum 25, JNum 25], JArr [JNum 20, JNum 25]]),
                   (''areaSqFt'', JNum 25),
                   (''furniture'', JArr [chairEntry 22])]])]"

text \<open>Drawing sessions that hold two points only, on the desktop and on the mobile canvas.\<close>

definition drawingTwo :: designer where
  "drawingTwo = initial\<lparr>isDrawingPolygon := True, currentPolygon := [pt 0 0, pt 100 0]\<rparr>"

definition m_drawingTwo :: mobile where
  "m_drawingTwo = m_initial\<lparr>m_isDrawingPolygon := True, m_currentPolygon := [pt 0 0, pt 100 0]\<rparr>"

section \<open>Event traces on the mobile canvas\<close>

text \<open>A sequence of timed events, delivered in order; it ends at the first throw.\<close>

fun deliverAll :: "(nat \<times> canvasEvent) list \<Rightarrow> mobile \<Rightarrow> jsError + mobile" where
  "deliverAll [] s = Inr s"
| "deliverAll (te # rest) s =
     (case deliver te s of
        Inl err \<Rightarrow> Inl err
      | Inr s' \<Rightarrow> deliverAll rest s')"

text \<open>
  The mobile designer showing the triangular room with its chair, at the initial zoom
  0.4 and pan (200,200); a finger at client position (96,96) is over the world point
  (40,40), the centre of the chair.  A quick tap is a \<^verbatim>\<open>touchstart\<close> with that one
  touch at time 1000 and, 100 ms later, a \<^verbatim>\<open>touchend\<close> with no touch left on the
  surface; a short drag is the same \<^verbatim>\<open>touchstart\<close> followed by a \<^verbatim>\<open>touchmove\<close>.
\<close>

definition m_chairRoom :: mobile where
  "m_chairRoom = m_initial\<lparr>m_areas := [triangleRoom]\<rparr>"

definition finger :: Touch where
  "finger = \<lparr>t_clientX = 96, t_clientY = 96\<rparr>"

definition quickTap :: "(nat \<times> canvasEvent) list" where
  "quickTap = [(1000, TouchEvent touchstart [finger] [finger]),
               (1100, TouchEvent touchend [] [finger])]"

definition shortDrag :: "(nat \<times> canvasEvent) list" where
  "shortDrag = [(1000, TouchEvent touchstart [finger] [finger]),
                (1100, TouchEvent touchmove [finger] [finger])]"

text \<open>The state after the \<^verbatim>\<open>touchstart\<close>: the long-press timer 1 is due at 1600.\<close>

definition pressed :: mobile where
  "pressed = m_chairRoom\<lparr>m_touchStartPos := pt 40 40, m_touchStartTime := 1000,
            m_highlightedCell := Some (pt 40 40),
            m_timers := [(1, 1600, LongPress (pt 40 40) [triangleRoom])],
            m_nextTimer := 2, m_longPressTimer := Some 1\<rparr>"

section \<open>Evaluation of the loops\<close>

lemma isPointInPolygon_loop_step:
  "i < length polygon \<Longrightarrow>
   isPointInPolygon_loop point polygon i j inside =
   isPointInPolygon_loop point polygon (Suc i) i
     (if edgeCrosses point (polygon ! i) (polygon ! j) then \<not> inside else inside)"
  by (subst isPointInPolygon_loop.simps) simp

lemma isPointInPolygon_loop_stop:
  "\<not> i < length polygon \<Longrightarrow> isPointInPolygon_loop point polygon i j inside = inside"
  by (subst isPointInPolygon_loop.simps) simp

lemma areCornersInsideArea_eval:
  "areCornersInsideArea ps c sz =
     (isPointInPolygon \<lparr>px = px c - width sz / 2, py = py c - height sz / 2\<rparr> ps \<and>
      isPointInPolygon \<lparr>px = px c + width sz / 2, py = py c - height sz / 2\<rparr> ps \<and>
      isPointInPolygon \<lparr>px = px c - width sz / 2, py = py c + height sz / 2\<rparr> ps \<and>
      isPointInPolygon \<lparr>px = px c + width sz / 2, py = py c + height sz / 2\<rparr> ps)"
  by (simp add: areCornersInsideArea_def getFurnitureCorners_def Let_def)

lemmas polygon_eval = isPointInPolygon_def edgeCrosses_def
  isPointInPolygon_loop_step isPointInPolygon_loop_stop


lemma snapToGrid_samples:
  "snapToGrid 0 = 0" "snapToGrid 5 = 0" "snapToGrid 40 = 40" "snapToGrid 60 = 60"
  "snapToGrid 100 = 100"
  by (simp_all add: snapToGrid_def Math_round_def GRID_SIZE_def)

lemma getFurnitureAtPoint_Nil: "getFurnitureAtPoint [] p = None"
  by (simp add: getFurnitureAtPoint_def allFurniture_def)

lemmas sample_states = initial_def furnished_def whileResizing_def whileDragging_def
  triangleRoom_def chair_def mouseAt_def pt_def

section \<open>Point in polygon on the square\<close>

text \<open>
  C6.  On the square with corners (0,0), (10,0), (10,10), (0,10) the point-in-polygon
  test answers true for (5,5), false for (15,5) and for (-1,-1); for the boundary point
  (0,5) it is a function of its arguments and its value is true (the left edge counts as
  inside under the strict comparison of the crossing rule).
\<close>

theorem isPointInPolygon_square:
  "isPointInPolygon (pt 5 5) square10 = True \<and>
   isPointInPolygon (pt 15 5) square10 = False \<and>
   isPointInPolygon (pt (-1) (-1)) square10 = False \<and>
   isPointInPolygon (pt 0 5) square10 = True"
  by (simp add: isPointInPolygon_def square10_def pt_def edgeCrosses_def
      isPointInPolygon_loop_step isPointInPolygon_loop_stop)


section \<open>Updates of the furniture lists\<close>

lemma find_map_same:
  "(\<And>x. P (g x) = P x) \<Longrightarrow> find P (map g xs) = map_option g (find P xs)"
  by (induction xs) auto

lemma allFurniture_mapFurniture:
  "allFurniture (mapFurniture g as) = map g (allFurniture as)"
  by (induction as)
     (auto simp: allFurniture_def mapFurniture_def furnitureOrEmpty_def split: option.splits)

lemma findFurniture_mapFurniture:
  "(\<And>f. f_id (g f) = f_id f) \<Longrightarrow>
   findFurniture (mapFurniture g as) fid = map_option g (findFurniture as fid)"
  unfolding findFurniture_def allFurniture_mapFurniture
  by (rule find_map_same) simp


lemma findFurniture_id: "findFurniture as fid = Some item \<Longrightarrow> f_id item = fid"
  unfolding findFurniture_def by (auto simp: find_Some_iff)

lemma findFurniture_after_update:
  assumes "findFurniture as fid = Some item" and "\<And>f. f_id (upd f) = f_id f"
  shows "findFurniture (mapFurniture (\<lambda>f. if f_id f = fid then upd f else f) as) fid
         = Some (upd item)"
proof -
  let ?g = "\<lambda>f. if f_id f = fid then upd f else f"
  have idg: "\<And>f. f_id (?g f) = f_id f" using assms(2) by simp
  have "f_id item = fid" using assms(1) by (rule findFurniture_id)
  then show ?thesis
    using assms(1) by (simp add: findFurniture_mapFurniture [of ?g, OF idg])
qed

section \<open>The size setter\<close>

text \<open>
  C10.  \<^verbatim>\<open>resizeFurniture(furnitureId, newSize)\<close> checks nothing: whatever the new size,
  afterwards the item found under that id is the old item with size \<open>newSize\<close>, every
  item of that id has size \<open>newSize\<close>, and no item is added or removed.  The toolbar
  calls it directly, so the rectangle may then leave the polygon.
\<close>

theorem resizeFurniture_unconditional:
  "findFurniture (areas (resizeFurniture fid newSize s)) fid
     = map_option (\<lambda>f. f\<lparr>f_size := newSize\<rparr>) (findFurniture (areas s) fid) \<and>
   (\<forall>f \<in> set (allFurniture (areas (resizeFurniture fid newSize s))).
      f_id f = fid \<longrightarrow> f_size f = newSize) \<and>
   length (allFurniture (areas (resizeFurniture fid newSize s)))
     = length (allFurniture (areas s))"
proof (intro conjI)
  let ?g = "\<lambda>f. if f_id f = fid then f\<lparr>f_size := newSize\<rparr> else f"
  have ar: "areas (resizeFurniture fid newSize s) = mapFurniture ?g (areas s)"
    by (simp add: resizeFurniture_def)
  show "findFurniture (areas (resizeFurniture fid newSize s)) fid
     = map_option (\<lambda>f. f\<lparr>f_size := newSize\<rparr>) (findFurniture (areas s) fid)"
  proof (cases "findFurniture (areas s) fid")
    case None
    then show ?thesis
      unfolding ar by (subst findFurniture_mapFurniture) simp_all
  next
    case (Some item)
    have "findFurniture (mapFurniture ?g (areas s)) fid = Some (item\<lparr>f_size := newSize\<rparr>)"
      by (rule findFurniture_after_update [OF Some]) simp
    then show ?thesis unfolding ar using Some by simp
  qed
  show "\<forall>f \<in> set (allFurniture (areas (resizeFurniture fid newSize s))).
      f_id f = fid \<longrightarrow> f_size f = newSize"
  proof
    fix f assume "f \<in> set (allFurniture (areas (resizeFurniture fid newSize s)))"
    then have "f \<in> ?g ` set (allFurniture (areas s))"
      unfolding ar allFurniture_mapFurniture by simp
    then obtain f0 where "f = ?g f0" by (rule imageE)
    then show "f_id f = fid \<longrightarrow> f_size f = newSize"
      by (cases "f_id f0 = fid") simp_all
  qed
  show "length (allFurniture (areas (resizeFurniture fid newSize s)))
     = length (allFurniture (areas s))"
    unfolding ar allFurniture_mapFurniture by simp
qed

theorem resizeFurniture_unconditional_witness:
  "findFurniture (areas (resizeFurniture ''furniture-1'' \<lparr>width = 300, height = 300\<rparr> furnished))
     ''furniture-1'' = Some (chair\<lparr>f_size := \<lparr>width = 300, height = 300\<rparr>\<rparr>) \<and>
   chair\<lparr>f_size := \<lparr>width = 300, height = 300\<rparr>\<rparr>
     \<in> set (allFurniture (areas (resizeFurniture ''furniture-1'' \<lparr>width = 300, height = 300\<rparr> furnished))) \<and>
   furnitureContained (areas furnished) ''furniture-1'' \<and>
   \<not> furnitureContained
       (areas (resizeFurniture ''furniture-1'' \<lparr>width = 300, height = 300\<rparr> furnished))
       ''furniture-1''"
  using resizeFurniture_unconditional
    [of "''furniture-1''" "\<lparr>width = 300, height = 300\<rparr>" furnished]
  by (simp add: sample_states resizeFurniture_def mapFurniture_def allFurniture_def
      furnitureOrEmpty_def findFurniture_def findArea_def furnitureContained_def
      areCornersInsideArea_eval polygon_eval)

section \<open>Pointer moves while resizing or dragging\<close>

lemma sameAreaExceptSizes_refl: "sameAreaExceptSizes a a"
  by (simp add: sameAreaExceptSizes_def sameExceptSize_def option.rel_refl list.rel_refl)

lemma sameAreaExceptSizes_resize:
  "list_all2 sameAreaExceptSizes as
     (mapFurniture (\<lambda>f. if f_id f = fid then f\<lparr>f_size := ns\<rparr> else f) as)"
  unfolding mapFurniture_def list_all2_map2
  by (rule list.rel_refl)
     (simp add: sameAreaExceptSizes_def sameExceptSize_def option.rel_map list.rel_map
        option.rel_refl list.rel_refl)

lemma find_Some_pred: "find P xs = Some x \<Longrightarrow> P x"
  by (auto simp: find_Some_iff)

lemma handleResizeMove_cases:
  "handleResizeMove s p = s \<or>
   (\<exists>rid ns. resizingFurnitureId s = Some rid \<and> handleResizeMove s p = resizeFurniture rid ns s)"
proof (cases "find (\<lambda>f. Some (f_id f) = resizingFurnitureId s) (allFurniture (areas s))")
  case None
  then show ?thesis by (simp add: handleResizeMove_def)
next
  case (Some item)
  then have "resizingFurnitureId s = Some (f_id item)"
    by (auto dest: find_Some_pred)
  then show ?thesis using Some
    by (fastforce simp: handleResizeMove_def Let_def split: option.splits)
qed

text \<open>
  C8.  A pointer move in the resize state, accepted or rejected, leaves the position of
  every item where it was: the areas before and after agree on every field of every area
  and of every item except the item sizes, items of another id are not touched at all,
  and nothing outside the area list changes.
\<close>

theorem resize_never_moves_center:
  assumes "resizing s"
  shows "list_all2 sameAreaExceptSizes (areas s) (areas (handleCanvasMouseMove s e)) \<and>
         list_all2 (\<lambda>f f'. Some (f_id f) \<noteq> resizingFurnitureId s \<longrightarrow> f' = f)
           (allFurniture (areas s)) (allFurniture (areas (handleCanvasMouseMove s e))) \<and>
         handleCanvasMouseMove s e = s\<lparr>areas := areas (handleCanvasMouseMove s e)\<rparr>"
proof -
  have eq: "handleCanvasMouseMove s e = handleResizeMove s (getMousePos s e)"
    using assms by (simp add: handleCanvasMouseMove_def)
  from handleResizeMove_cases [of s "getMousePos s e"] show ?thesis
  proof
    assume "handleResizeMove s (getMousePos s e) = s"
    then show ?thesis
      by (simp add: eq sameAreaExceptSizes_refl list.rel_refl)
  next
    assume "\<exists>rid ns. resizingFurnitureId s = Some rid \<and>
              handleResizeMove s (getMousePos s e) = resizeFurniture rid ns s"
    then obtain rid ns where rid: "resizingFurnitureId s = Some rid"
      and r: "handleResizeMove s (getMousePos s e) = resizeFurniture rid ns s" by blast
    show ?thesis
      unfolding eq r
      by (simp add: resizeFurniture_def sameAreaExceptSizes_resize rid
          allFurniture_mapFurniture list_all2_map2 list.rel_refl)
  qed
qed

theorem resize_never_moves_center_witness:
  "resizing whileResizing \<and>
   areas (handleCanvasMouseMove whileResizing (mouseAt 60 60)) =
     [triangleRoom\<lparr>a_furniture := Some [chair\<lparr>f_size := \<lparr>width = 40, height = 40\<rparr>\<rparr>]\<rparr>] \<and>
   list_all2 sameAreaExceptSizes (areas whileResizing)
     (areas (handleCanvasMouseMove whileResizing (mouseAt 60 60)))"
proof -
  have r: "resizing whileResizing"
    by (simp add: resizing_def truthy_def sample_states)
  have "areas (handleCanvasMouseMove whileResizing (mouseAt 60 60)) =
     [triangleRoom\<lparr>a_furniture := Some [chair\<lparr>f_size := \<lparr>width = 40, height = 40\<rparr>\<rparr>]\<rparr>]"
    by (simp add: handleCanvasMouseMove_def handleResizeMove_def resizing_def truthy_def
        getMousePos_def worldX_def worldY_def sample_states snapToGrid_samples allFurniture_def furnitureOrEmpty_def
        proposedSize_def handle_includes_def clamp20_300_def areCornersInsideArea_eval
        polygon_eval resizeFurniture_def mapFurniture_def)
  then show ?thesis
    using r resize_never_moves_center [OF r, of "mouseAt 60 60"] by simp
qed

section \<open>Containment under pointer moves\<close>
















text \<open>
  A plan with a repeated id is within reach of the program: the import of \<open>twinFile\<close>
  gives the two rooms, each with its chair \<^verbatim>\<open>furniture-1\<close>.
\<close>

lemma twin_import:
  "map_option areas (handleImportFile (\<lambda>path. []) targetAttached (Parsed twinFile) initial)
     = Some [triangleRoom, squareRoom]"
  by (simp add: handleImportFile_def twinFile_def chairEntry_def orEmptyMap_def importArea_def
      importFurniture_def feetOr_def optProp_def orString_def importPoint_def element_def
      enumerate_eq_zip getAreaColor_def triangleRoom_def squareRoom_def twin_def chair_def pt_def
      GRID_SIZE_def initial_def toast_def Let_def)









section \<open>Screen and world coordinates\<close>

lemma snapToGrid_near: "\<bar>snapToGrid v - v\<bar> \<le> GRID_SIZE / 2"
proof -
  have "\<bar>of_int \<lfloor>v / 20 + 1 / 2\<rfloor> - v / 20\<bar> \<le> (1 / 2 :: real)" by linarith
  then have "\<bar>of_int \<lfloor>v / 20 + 1 / 2\<rfloor> * 20 - v\<bar> \<le> (10 :: real)" by linarith
  then show ?thesis by (simp add: snapToGrid_def Math_round_def GRID_SIZE_def)
qed

lemma toScreenX_worldX: "zoomLevel s \<noteq> 0 \<Longrightarrow> toScreenX s (worldX s sx) = sx"
  by (simp add: toScreenX_def worldX_def)

lemma toScreenY_worldY: "zoomLevel s \<noteq> 0 \<Longrightarrow> toScreenY s (worldY s sy) = sy"
  by (simp add: toScreenY_def worldY_def)

lemma toScreenX_snapped:
  assumes "0 < zoomLevel s"
  shows "\<bar>toScreenX s (snapToGrid (worldX s sx)) - sx\<bar> \<le> GRID_SIZE / 2 * zoomLevel s"
proof -
  have "toScreenX s (snapToGrid (worldX s sx)) - sx
        = toScreenX s (snapToGrid (worldX s sx)) - toScreenX s (worldX s sx)"
    using assms by (simp add: toScreenX_worldX)
  also have "\<dots> = (snapToGrid (worldX s sx) - worldX s sx) * zoomLevel s"
    by (simp add: toScreenX_def algebra_simps)
  finally have "\<bar>toScreenX s (snapToGrid (worldX s sx)) - sx\<bar>
                = \<bar>snapToGrid (worldX s sx) - worldX s sx\<bar> * zoomLevel s"
    using assms by (simp add: abs_mult)
  then show ?thesis
    using snapToGrid_near [of "worldX s sx"] assms by (simp add: mult_right_mono)
qed

lemma toScreenY_snapped:
  assumes "0 < zoomLevel s"
  shows "\<bar>toScreenY s (snapToGrid (worldY s sy)) - sy\<bar> \<le> GRID_SIZE / 2 * zoomLevel s"
proof -
  have "toScreenY s (snapToGrid (worldY s sy)) - sy
        = toScreenY s (snapToGrid (worldY s sy)) - toScreenY s (worldY s sy)"
    using assms by (simp add: toScreenY_worldY)
  also have "\<dots> = (snapToGrid (worldY s sy) - worldY s sy) * zoomLevel s"
    by (simp add: toScreenY_def algebra_simps)
  finally have "\<bar>toScreenY s (snapToGrid (worldY s sy)) - sy\<bar>
                = \<bar>snapToGrid (worldY s sy) - worldY s sy\<bar> * zoomLevel s"
    using assms by (simp add: abs_mult)
  then show ?thesis
    using snapToGrid_near [of "worldY s sy"] assms by (simp add: mult_right_mono)
qed

lemma zoom_stays_clamped:
  assumes "0.3 \<le> zoomLevel s" and "zoomLevel s \<le> 3"
  shows "0.3 \<le> zoomLevel (handleZoomIn s) \<and> zoomLevel (handleZoomIn s) \<le> 3"
    and "0.3 \<le> zoomLevel (handleZoomOut s) \<and> zoomLevel (handleZoomOut s) \<le> 3"
    and "0.3 \<le> zoomLevel (handleWheel s w) \<and> zoomLevel (handleWheel s w) \<le> 3"
  using assms
  by (auto simp: handleZoomIn_def handleZoomOut_def handleWheel_def Let_def split: option.splits)

text \<open>
  C5.  With real arithmetic for the JavaScript numbers, and for every positive zoom
  level (the zoom handlers keep it in the clamped range from 0.3 to 3), every pan offset
  and every canvas-relative screen point: mapping the screen point to the world and back
  gives the screen point again, exactly; and when the world point is snapped to the grid
  in between, as \<^verbatim>\<open>getMousePos\<close> does, the result is within half a grid cell times the
  zoom level of the screen point.
\<close>

theorem screen_world_roundtrip:
  assumes "0 < zoomLevel s" and "canvasRect s = Some rect"
  shows "toScreenX s (worldX s sx) = sx \<and> toScreenY s (worldY s sy) = sy \<and>
         \<bar>toScreenX s (px (getMousePos s e)) - (clientX e - px rect)\<bar>
            \<le> GRID_SIZE / 2 * zoomLevel s \<and>
         \<bar>toScreenY s (py (getMousePos s e)) - (clientY e - py rect)\<bar>
            \<le> GRID_SIZE / 2 * zoomLevel s"
proof -
  have z: "0 < zoomLevel s" using assms(1) by simp
  then have nz: "zoomLevel s \<noteq> 0" by simp
  have gx: "px (getMousePos s e) = snapToGrid (worldX s (clientX e - px rect))"
    and gy: "py (getMousePos s e) = snapToGrid (worldY s (clientY e - py rect))"
    using assms(2) by (simp_all add: getMousePos_def)
  show ?thesis
    unfolding gx gy
    using toScreenX_worldX [OF nz] toScreenY_worldY [OF nz]
      toScreenX_snapped [OF z] toScreenY_snapped [OF z]
    by simp
qed

theorem screen_world_roundtrip_witness:
  "0 < zoomLevel (handleZoomIn initial) \<and>
   canvasRect (handleZoomIn initial) = Some (pt 0 0) \<and>
   zoomLevel (handleZoomIn initial) = 6 / 5 \<and>
   toScreenX (handleZoomIn initial) (worldX (handleZoomIn initial) 5) = 5 \<and>
   toScreenY (handleZoomIn initial) (worldY (handleZoomIn initial) 7) = 7 \<and>
   \<bar>toScreenX (handleZoomIn initial) (px (getMousePos (handleZoomIn initial) (mouseAt 5 7)))
      - (clientX (mouseAt 5 7) - px (pt 0 0))\<bar>
      \<le> GRID_SIZE / 2 * zoomLevel (handleZoomIn initial)"
proof -
  have h: "0 < zoomLevel (handleZoomIn initial)"
    "canvasRect (handleZoomIn initial) = Some (pt 0 0)"
    by (simp_all add: handleZoomIn_def initial_def)
  have z: "zoomLevel (handleZoomIn initial) = 6 / 5"
    by (simp add: handleZoomIn_def initial_def)
  show ?thesis
    using h z screen_world_roundtrip [OF h, of 5 7 "mouseAt 5 7"] by simp
qed

section \<open>Closing a polygon\<close>

lemma sqrt_less_iff_sq: "0 \<le> c \<Longrightarrow> sqrt v < c \<longleftrightarrow> v < c\<^sup>2"
  using real_sqrt_less_iff [of v "c\<^sup>2"] by simp

lemma distance_less_iff: "0 \<le> c \<Longrightarrow> distance p q < c \<longleftrightarrow> (px p - px q)\<^sup>2 + (py p - py q)\<^sup>2 < c\<^sup>2"
  by (simp add: distance_def sqrt_less_iff_sq)

lemma shoelace_loop_step:
  "i < length points \<Longrightarrow>
   shoelace_loop points i a =
   shoelace_loop points (Suc i)
     (a + px (points ! i) * py (points ! ((i + 1) mod length points))
        - px (points ! ((i + 1) mod length points)) * py (points ! i))"
  by (subst shoelace_loop.simps) (simp add: Let_def)

lemma shoelace_loop_stop: "\<not> i < length points \<Longrightarrow> shoelace_loop points i a = a"
  by (subst shoelace_loop.simps) simp

lemma area_triangle100: "calculatePolygonArea triangle100 = 13"
proof -
  have "shoelace_loop triangle100 0 0 = 10000"
    by (simp add: triangle100_def pt_def shoelace_loop_step shoelace_loop_stop)
  moreover have "\<lfloor>(13 :: real)\<rfloor> = 13" by simp
  ultimately show ?thesis
    by (simp add: calculatePolygonArea_def triangle100_def Math_round_def GRID_SIZE_def)
qed

lemma click_closes:
  assumes "isDrawingPolygon s" and "\<not> isPlacingFurniture s" and "interactionMode s = AreaMode"
    and "getFurnitureAtPoint (areas s) p = None"
    and "length (currentPolygon s) > 2" and "distance p (currentPolygon s ! 0) < 10"
  shows "areas (handleCanvasClickAt p currentTime idTime s) =
           areas s @ [\<lparr>a_id = ''area-'' @ string_of_nat idTime,
                       a_type = selectedAreaType s,
                       a_points = currentPolygon s,
                       a_areaSqFt = calculatePolygonArea (currentPolygon s),
                       a_color = getAreaColor (selectedAreaType s),
                       a_furniture = None\<rparr>]"
    and "isDrawingPolygon (handleCanvasClickAt p currentTime idTime s) = False"
    and "currentPolygon (handleCanvasClickAt p currentTime idTime s) = []"
  using assms by (simp_all add: handleCanvasClickAt_def Let_def toast_def)

lemma round_12_5: "Math_round (5000 / (GRID_SIZE * GRID_SIZE)) = 13"
proof -
  have "\<lfloor>(13 :: real)\<rfloor> = 13" by simp
  then show ?thesis by (simp add: Math_round_def GRID_SIZE_def)
qed

lemma round_25: "Math_round (10000 / (GRID_SIZE * GRID_SIZE)) = 25"
proof -
  have "\<lfloor>(51 / 2 :: real)\<rfloor> = 25" by linarith
  then show ?thesis by (simp add: Math_round_def GRID_SIZE_def)
qed

lemma near_start: "distance (pt 0 0) (triangle100 ! 0) < 10"
  by (simp add: distance_less_iff triangle100_def pt_def)

lemma pointer_snaps_to_start:
  assumes "canvasRect s = Some rect"
    and "(clientX e - px rect) / zoomLevel s - px (panOffset s) = 5"
    and "(clientY e - py rect) / zoomLevel s - py (panOffset s) = 5"
  shows "getMousePos s e = pt 0 0"
  using assms by (simp add: getMousePos_def worldX_def worldY_def pt_def snapToGrid_samples)

lemma drawingTriangle_facts:
  "isDrawingPolygon drawingTriangle" "currentPolygon drawingTriangle = triangle100"
  "\<not> isPlacingFurniture drawingTriangle" "interactionMode drawingTriangle = AreaMode"
  "getFurnitureAtPoint (areas drawingTriangle) p = None"
  "areas drawingTriangle = []" "selectedAreaType drawingTriangle = ''bedroom''"
  "0 < zoomLevel drawingTriangle" "canvasRect drawingTriangle = Some (pt 0 0)"
  "(clientX (mouseAt 5 5) - px (pt 0 0)) / zoomLevel drawingTriangle
     - px (panOffset drawingTriangle) = 5"
  "(clientY (mouseAt 5 5) - py (pt 0 0)) / zoomLevel drawingTriangle
     - py (panOffset drawingTriangle) = 5"
  by (simp_all add: drawingTriangle_def initial_def getFurnitureAtPoint_def allFurniture_def
      mouseAt_def pt_def)

text \<open>
  C3, as the spec words it, asks for \<open>round(10000 / gridSize\<^sup>2) = 25\<close> square feet.
  The triangle (0,0), (100,0), (100,100) has half that area, and the click handler, called
  with a pointer event at (5,5) on the unzoomed, unpanned canvas, stores 13.
\<close>

theorem close_triangle_area_counterexample:
  "a_areaSqFt (last (areas (handleCanvasClick drawingTriangle (mouseAt 5 5) 1000 1001)))
     \<noteq> Math_round (10000 / (GRID_SIZE * GRID_SIZE))"
proof -
  have snap: "getMousePos drawingTriangle (mouseAt 5 5) = pt 0 0"
    by (rule pointer_snaps_to_start) (rule drawingTriangle_facts(9-11))+
  have "areas (handleCanvasClickAt (pt 0 0) 1000 1001 drawingTriangle) =
           areas drawingTriangle @ [\<lparr>a_id = ''area-'' @ string_of_nat 1001,
                       a_type = selectedAreaType drawingTriangle,
                       a_points = currentPolygon drawingTriangle,
                       a_areaSqFt = calculatePolygonArea (currentPolygon drawingTriangle),
                       a_color = getAreaColor (selectedAreaType drawingTriangle),
                       a_furniture = None\<rparr>]"
  proof (rule click_closes)
    show "2 < length (currentPolygon drawingTriangle)"
      by (simp add: drawingTriangle_facts triangle100_def)
    show "distance (pt 0 0) (currentPolygon drawingTriangle ! 0) < 10"
      by (simp add: drawingTriangle_facts near_start)
  qed (simp_all add: drawingTriangle_facts getFurnitureAtPoint_Nil)
  then show ?thesis
    by (simp add: handleCanvasClick_def snap drawingTriangle_facts area_triangle100 round_25)
qed

text \<open>
  C3, amended.  Take a drawing session that holds exactly (0,0), (100,0), (100,100), in
  area mode with no placement pending, and a pointer event whose world position under the
  current (positive) zoom and pan, \<open>(client - rect) / zoom - pan\<close> in each coordinate, is
  (5,5).  The click handler snaps that position to the grid point
  (0,0), the first point of the polygon.  If no furniture item covers (0,0), the handler
  closes the polygon: one area is appended whose points are those three points and whose
  \<open>areaSqFt\<close> is \<open>round(5000 / gridSize\<^sup>2) = 13\<close>, the session is no longer drawing and
  its point list is empty.
\<close>

theorem close_triangle:
  assumes "isDrawingPolygon s" and "currentPolygon s = triangle100"
    and "\<not> isPlacingFurniture s" and "interactionMode s = AreaMode"
    and "0 < zoomLevel s" and "canvasRect s = Some rect"
    and "(clientX e - px rect) / zoomLevel s - px (panOffset s) = 5"
    and "(clientY e - py rect) / zoomLevel s - py (panOffset s) = 5"
    and "getFurnitureAtPoint (areas s) (pt 0 0) = None"
  shows "getMousePos s e = pt 0 0 \<and>
         areas (handleCanvasClick s e currentTime idTime) =
           areas s @ [\<lparr>a_id = ''area-'' @ string_of_nat idTime,
                       a_type = selectedAreaType s,
                       a_points = triangle100,
                       a_areaSqFt = Math_round (5000 / (GRID_SIZE * GRID_SIZE)),
                       a_color = getAreaColor (selectedAreaType s),
                       a_furniture = None\<rparr>] \<and>
         Math_round (5000 / (GRID_SIZE * GRID_SIZE)) = 13 \<and>
         \<not> isDrawingPolygon (handleCanvasClick s e currentTime idTime) \<and>
         currentPolygon (handleCanvasClick s e currentTime idTime) = []"
proof -
  have snap: "getMousePos s e = pt 0 0"
    using assms(6,7,8) by (rule pointer_snaps_to_start)
  have len: "length (currentPolygon s) > 2"
    by (simp add: assms(2) triangle100_def)
  have near: "distance (pt 0 0) (currentPolygon s ! 0) < 10"
    by (simp add: assms(2) near_start)
  show ?thesis
    using click_closes [OF assms(1,3,4,9) len near, of currentTime idTime]
    by (simp add: handleCanvasClick_def snap assms(2) area_triangle100 round_12_5)
qed

theorem close_triangle_witness:
  "isDrawingPolygon drawingTriangle \<and> currentPolygon drawingTriangle = triangle100 \<and>
   \<not> isPlacingFurniture drawingTriangle \<and> interactionMode drawingTriangle = AreaMode \<and>
   0 < zoomLevel drawingTriangle \<and> canvasRect drawingTriangle = Some (pt 0 0) \<and>
   (clientX (mouseAt 5 5) - px (pt 0 0)) / zoomLevel drawingTriangle
     - px (panOffset drawingTriangle) = 5 \<and>
   (clientY (mouseAt 5 5) - py (pt 0 0)) / zoomLevel drawingTriangle
     - py (panOffset drawingTriangle) = 5 \<and>
   getFurnitureAtPoint (areas drawingTriangle) (pt 0 0) = None \<and>
   areas (handleCanvasClick drawingTriangle (mouseAt 5 5) 1000 1001) =
     [\<lparr>a_id = ''area-1001'', a_type = ''bedroom'', a_points = triangle100,
       a_areaSqFt = 13, a_color = ''#3b82f6'', a_furniture = None\<rparr>] \<and>
   \<not> isDrawingPolygon (handleCanvasClick drawingTriangle (mouseAt 5 5) 1000 1001) \<and>
   currentPolygon (handleCanvasClick drawingTriangle (mouseAt 5 5) 1000 1001) = []"
proof -
  have id: "string_of_nat 1001 = ''1001''"
    by code_simp
  show ?thesis
    using close_triangle [OF drawingTriangle_facts(1-4) drawingTriangle_facts(8-11)
        drawingTriangle_facts(5), of 1000 1001]
    by (simp add: drawingTriangle_facts id getAreaColor_def getFurnitureAtPoint_Nil)
qed

section \<open>Placing furniture\<close>

lemma placeFurniture_areas:
  assumes "selectedFurniture s = Some name" and "selectedArea s = Some aid"
    and "name \<noteq> []" and "aid \<noteq> []"
  shows "areas (placeFurniture p now s) =
     (case findArea (areas s) aid of
        None \<Rightarrow> areas s
      | Some ar \<Rightarrow>
          if isPointInPolygon p (a_points ar) then
            appendFurniture aid
              \<lparr>f_id = ''furniture-'' @ string_of_nat now, f_name = name, f_position = p,
               f_areaId = aid, f_size = \<lparr>width = 30, height = 30\<rparr>,
               f_color = Some (defaultColors (toLowerCase name))\<rparr> (areas s)
          else areas s)"
  using assms
  by (simp add: placeFurniture_def findArea_def toast_def Let_def split: option.splits)

lemma placeFurniture_nothing_selected:
  assumes "\<not> (truthy (selectedFurniture s) \<and> truthy (selectedArea s))"
  shows "placeFurniture p now s = s"
  using assms
  by (auto simp: placeFurniture_def truthy_def split: option.splits)

lemma handleCanvasTap_placing:
  assumes "m_isPlacingFurniture m" and "m_pendingFurniture m = Some pending"
  shows "\<exists>m'. handleCanvasTap p now m = Inr m' \<and>
     m_areas m' =
     (case findArea (m_areas m) (pf_areaId pending) of
        None \<Rightarrow> m_areas m
      | Some ar \<Rightarrow>
          if isPointInPolygon p (a_points ar) then
            appendFurniture (pf_areaId pending)
              \<lparr>f_id = ''furniture-'' @ string_of_nat now, f_name = pf_name pending,
               f_position = p, f_areaId = pf_areaId pending,
               f_size = \<lparr>width = 60, height = 40\<rparr>, f_color = Some ''#8B4513''\<rparr> (m_areas m)
          else m_areas m)"
  using assms
  by (simp add: handleCanvasTap_def findArea_def m_toast_def Let_def split: option.splits)

text \<open>
  C2, as the spec words it, asks for the four corners of the new rectangle to be inside
  the polygon.  The placement code tests the tapped centre only: a chair tapped at
  (100,80) into the triangle (0,0), (200,0), (0,200) is appended although its corner
  (115,95) is outside.
\<close>

theorem placement_corner_counterexample:
  "allFurniture (areas (handleCanvasClickAt (pt 100 80) 1000 1001 placingChair)) =
     [\<lparr>f_id = ''furniture-1001'', f_name = ''chair'', f_position = pt 100 80,
       f_areaId = ''area-1'', f_size = \<lparr>width = 30, height = 30\<rparr>,
       f_color = Some ''#50C878''\<rparr>] \<and>
   \<not> areCornersInsideArea (a_points emptyRoom) (pt 100 80) \<lparr>width = 30, height = 30\<rparr>"
proof -
  have id: "string_of_nat 1001 = ''1001''" by code_simp
  have lc: "toLowerCase ''chair'' = ''chair''" by code_simp
  have inside: "isPointInPolygon (pt 100 80) [pt 0 0, pt 200 0, pt 0 200]"
    by (simp add: pt_def polygon_eval)
  have "allFurniture (areas (handleCanvasClickAt (pt 100 80) 1000 1001 placingChair)) =
     [\<lparr>f_id = ''furniture-1001'', f_name = ''chair'', f_position = pt 100 80,
       f_areaId = ''area-1'', f_size = \<lparr>width = 30, height = 30\<rparr>,
       f_color = Some ''#50C878''\<rparr>]"
    using inside
    by (simp add: handleCanvasClickAt_def placeFurniture_def placingChair_def initial_def
        emptyRoom_def triangleRoom_def toast_def appendFurniture_def allFurniture_def
        furnitureOrEmpty_def id lc defaultColors_def)
  moreover have "\<not> areCornersInsideArea (a_points emptyRoom) (pt 100 80) \<lparr>width = 30, height = 30\<rparr>"
    by (simp add: emptyRoom_def triangleRoom_def pt_def areCornersInsideArea_eval polygon_eval)
  ultimately show ?thesis by simp
qed

text \<open>
  C2, amended.  A placement tap appends the new item, centred at the tapped point and of
  the default size (30 by 30 on the desktop, 60 by 40 on the mobile designer), to the
  areas of the target id exactly when the target area is found and the tapped point itself
  passes the point-in-polygon test; the corners of the rectangle are not tested.
  Otherwise the area list stays as it was, and with nothing selected the desktop handler
  changes nothing at all.
\<close>

theorem placement_checks_center:
  "(\<forall>name aid. selectedFurniture s = Some name \<and> selectedArea s = Some aid \<and>
        name \<noteq> [] \<and> aid \<noteq> [] \<longrightarrow>
      areas (placeFurniture p now s) =
        (case findArea (areas s) aid of
           None \<Rightarrow> areas s
         | Some ar \<Rightarrow>
             if isPointInPolygon p (a_points ar) then
               appendFurniture aid
                 \<lparr>f_id = ''furniture-'' @ string_of_nat now, f_name = name, f_position = p,
                  f_areaId = aid, f_size = \<lparr>width = 30, height = 30\<rparr>,
                  f_color = Some (defaultColors (toLowerCase name))\<rparr> (areas s)
             else areas s)) \<and>
   (\<not> (truthy (selectedFurniture s) \<and> truthy (selectedArea s)) \<longrightarrow>
      placeFurniture p now s = s) \<and>
   (\<forall>pending. m_isPlacingFurniture m \<and> m_pendingFurniture m = Some pending \<longrightarrow>
      (\<exists>m'. handleCanvasTap p now m = Inr m' \<and>
         m_areas m' =
           (case findArea (m_areas m) (pf_areaId pending) of
              None \<Rightarrow> m_areas m
            | Some ar \<Rightarrow>
                if isPointInPolygon p (a_points ar) then
                  appendFurniture (pf_areaId pending)
                    \<lparr>f_id = ''furniture-'' @ string_of_nat now, f_name = pf_name pending,
                     f_position = p, f_areaId = pf_areaId pending,
                     f_size = \<lparr>width = 60, height = 40\<rparr>, f_color = Some ''#8B4513''\<rparr>
                    (m_areas m)
                else m_areas m)))"
  using placeFurniture_areas placeFurniture_nothing_selected handleCanvasTap_placing
  by blast


theorem placement_checks_center_witness:
  "selectedFurniture placingChair = Some ''chair'' \<and>
   selectedArea placingChair = Some ''area-1'' \<and>
   findArea (areas placingChair) ''area-1'' = Some emptyRoom \<and>
   \<not> isPointInPolygon (pt 200 200) (a_points emptyRoom) \<and>
   areas (placeFurniture (pt 200 200) 7 placingChair) = areas placingChair \<and>
   m_isPlacingFurniture m_placingChair \<and>
   (\<exists>m'. handleCanvasTap (pt 200 200) 7 m_placingChair = Inr m' \<and>
      m_areas m' = m_areas m_placingChair)"
proof -
  have sel: "selectedFurniture placingChair = Some ''chair''"
    "selectedArea placingChair = Some ''area-1''"
    "areas placingChair = [emptyRoom]"
    by (simp_all add: placingChair_def initial_def)
  have msel: "m_isPlacingFurniture m_placingChair"
    "m_pendingFurniture m_placingChair = Some \<lparr>pf_name = ''chair'', pf_areaId = ''area-1''\<rparr>"
    "m_areas m_placingChair = [emptyRoom]"
    by (simp_all add: m_placingChair_def m_initial_def)
  have ar: "findArea [emptyRoom] ''area-1'' = Some emptyRoom"
    by (simp add: findArea_def emptyRoom_def triangleRoom_def)
  have out: "\<not> isPointInPolygon (pt 200 200) (a_points emptyRoom)"
    by (simp add: emptyRoom_def triangleRoom_def pt_def polygon_eval)
  show ?thesis
    using placement_checks_center [of placingChair "pt 200 200" 7 m_placingChair]
    by (simp add: sel msel ar out)
qed

section \<open>Areas have at least three points\<close>

lemma wellFormed_append:
  "areasWellFormed (as @ [a]) \<longleftrightarrow> areasWellFormed as \<and> 3 \<le> length (a_points a)"
  by (simp add: areasWellFormed_def)

lemma wellFormed_appendFurniture:
  "areasWellFormed (appendFurniture aid item as) = areasWellFormed as"
  by (induction as) (simp_all add: areasWellFormed_def appendFurniture_def)

lemma wellFormed_mapFurniture:
  "areasWellFormed (mapFurniture g as) = areasWellFormed as"
  by (induction as) (simp_all add: areasWellFormed_def mapFurniture_def)

lemma two_point_import:
  "map_option areas (handleImportFile (\<lambda>path. []) targetAttached (Parsed twoPointFile) initial)
     = Some [twoPointArea]"
  by (simp add: handleImportFile_def twoPointFile_def orEmptyMap_def importArea_def
      orString_def importPoint_def element_def enumerate_eq_zip calculatePolygonArea_def
      getAreaColor_def twoPointArea_def pt_def GRID_SIZE_def initial_def toast_def Let_def)


lemma length_appendFurniture: "length (appendFurniture aid item as) = length as"
  by (simp add: appendFurniture_def)

lemma placeFurniture_wellFormed:
  "areasWellFormed (areas (placeFurniture p now s)) = areasWellFormed (areas s)"
  by (simp add: placeFurniture_def toast_def Let_def wellFormed_appendFurniture
      split: option.splits prod.splits)

lemma placeFurniture_length:
  "length (areas (placeFurniture p now s)) = length (areas s)"
  by (simp add: placeFurniture_def toast_def Let_def length_appendFurniture
      split: option.splits prod.splits)

lemma click_cases:
  "areas (handleCanvasClickAt p ct it s) = areas (placeFurniture p it (s\<lparr>lastClickTime := ct\<rparr>)) \<or>
   areas (handleCanvasClickAt p ct it s) = areas s \<or>
   (isDrawingPolygon s \<and> 2 < length (currentPolygon s) \<and>
    distance p (currentPolygon s ! 0) < 10 \<and>
    areas (handleCanvasClickAt p ct it s) =
      areas s @ [\<lparr>a_id = ''area-'' @ string_of_nat it, a_type = selectedAreaType s,
                  a_points = currentPolygon s,
                  a_areaSqFt = calculatePolygonArea (currentPolygon s),
                  a_color = getAreaColor (selectedAreaType s), a_furniture = None\<rparr>])"
  by (simp add: handleCanvasClickAt_def Let_def toast_def split: option.splits)

lemma click_wellFormed:
  assumes "areasWellFormed (areas s)"
  shows "areasWellFormed (areas (handleCanvasClickAt p ct it s))"
  using click_cases [of p ct it s] assms
  by (auto simp: placeFurniture_wellFormed wellFormed_append)

lemma click_creates:
  assumes "length (areas (handleCanvasClickAt p ct it s)) \<noteq> length (areas s)"
  shows "isDrawingPolygon s \<and> 3 \<le> length (currentPolygon s) \<and>
         distance p (currentPolygon s ! 0) < 10 \<and>
         areas (handleCanvasClickAt p ct it s) =
           areas s @ [\<lparr>a_id = ''area-'' @ string_of_nat it, a_type = selectedAreaType s,
                  a_points = currentPolygon s,
                  a_areaSqFt = calculatePolygonArea (currentPolygon s),
                  a_color = getAreaColor (selectedAreaType s), a_furniture = None\<rparr>]"
  using click_cases [of p ct it s] assms
  by (auto simp: placeFurniture_length)

lemma click_few_points:
  assumes "isDrawingPolygon s" and "\<not> isPlacingFurniture s" and "interactionMode s = AreaMode"
    and "getFurnitureAtPoint (areas s) p = None" and "length (currentPolygon s) < 3"
  shows "areas (handleCanvasClickAt p ct it s) = areas s \<and>
         currentPolygon (handleCanvasClickAt p ct it s) = currentPolygon s @ [p] \<and>
         isDrawingPolygon (handleCanvasClickAt p ct it s)"
  using assms by (simp add: handleCanvasClickAt_def Let_def)

lemma clickAll_wellFormed:
  "areasWellFormed (areas s) \<Longrightarrow> areasWellFormed (areas (clickAll clicks s))"
proof (induction clicks arbitrary: s)
  case Nil
  then show ?case by (simp add: clickAll_def)
next
  case (Cons c clicks)
  obtain p ct it where c: "c = (p, ct, it)" by (cases c)
  have "areasWellFormed (areas (handleCanvasClickAt p ct it s))"
    using Cons.prems by (rule click_wellFormed)
  then have "areasWellFormed (areas (clickAll clicks (handleCanvasClickAt p ct it s)))"
    by (rule Cons.IH)
  then show ?case by (simp add: clickAll_def c)
qed

lemma tap_cases:
  "handleCanvasTap p now m = Inl TypeError \<or>
   (\<exists>m'. handleCanvasTap p now m = Inr m' \<and>
      (m_areas m' = m_areas m \<or>
       (\<exists>aid item. m_areas m' = appendFurniture aid item (m_areas m)) \<or>
       (m_isDrawingPolygon m \<and> 3 \<le> length (m_currentPolygon m) \<and>
        distance p (m_currentPolygon m ! 0) < 40 \<and>
        m_areas m' =
          m_areas m @ [\<lparr>a_id = ''area-'' @ string_of_nat now, a_type = m_selectedAreaType m,
                  a_points = m_currentPolygon m,
                  a_areaSqFt = calculatePolygonArea (m_currentPolygon m),
                  a_color = getAreaColor (m_selectedAreaType m), a_furniture = Some []\<rparr>])))"
  by (auto simp: handleCanvasTap_def Let_def m_toast_def split: option.splits list.splits)


lemma tap_wellFormed:
  assumes "areasWellFormed (m_areas m)" and "handleCanvasTap p now m = Inr m'"
  shows "areasWellFormed (m_areas m')"
  using tap_cases [of p now m] assms
  by (auto simp: wellFormed_appendFurniture wellFormed_append)

lemma tap_creates:
  assumes "handleCanvasTap p now m = Inr m'" and "length (m_areas m') \<noteq> length (m_areas m)"
  shows "m_isDrawingPolygon m \<and> 3 \<le> length (m_currentPolygon m) \<and>
         distance p (m_currentPolygon m ! 0) < 40 \<and>
         a_points (last (m_areas m')) = m_currentPolygon m"
  using tap_cases [of p now m] assms
  by (auto simp: length_appendFurniture)

lemma tap_few_points:
  assumes "m_isDrawingPolygon m" and "\<not> (m_isPlacingFurniture m \<and> m_pendingFurniture m \<noteq> None)"
    and "getFurnitureAtPoint (m_areas m) p = None"
    and "0 < length (m_currentPolygon m)" and "length (m_currentPolygon m) < 3"
  shows "\<exists>m'. handleCanvasTap p now m = Inr m' \<and> m_areas m' = m_areas m \<and>
           m_currentPolygon m' = m_currentPolygon m @ [p] \<and> m_isDrawingPolygon m'"
  using assms
  by (auto simp: handleCanvasTap_def Let_def split: list.splits)

lemma tapAll_wellFormed:
  "areasWellFormed (m_areas m) \<Longrightarrow> tapAll taps m = Inr m' \<Longrightarrow> areasWellFormed (m_areas m')"
proof (induction taps arbitrary: m)
  case Nil
  then show ?case by simp
next
  case (Cons t taps)
  obtain p now where t: "t = (p, now)" by (cases t)
  from Cons.prems(2) obtain m1 where m1: "handleCanvasTap p now m = Inr m1"
    and rest: "tapAll taps m1 = Inr m'"
    by (auto simp: t split: sum.splits)
  have "areasWellFormed (m_areas m1)"
    using Cons.prems(1) m1 by (rule tap_wellFormed)
  then show ?case using rest by (rule Cons.IH)
qed

text \<open>
  The editing operations on furniture leave the points of every area alone, so they keep
  the invariant as well.
\<close>

lemma wellFormed_deleteFurniture:
  "areasWellFormed (map (\<lambda>a. a\<lparr>a_furniture := g a\<rparr>) as) = areasWellFormed as"
  by (induction as) (simp_all add: areasWellFormed_def)

lemma handleDragMove_areas:
  "areas (handleDragMove s p) = areas s \<or>
   (\<exists>g. areas (handleDragMove s p) = mapFurniture g (areas s))"
  by (auto simp: handleDragMove_def split: option.splits)

lemma editing_keeps_wellFormed:
  "areasWellFormed (areas (resizeFurniture fid ns s)) = areasWellFormed (areas s)"
  "areasWellFormed (areas (renameFurniture fid nm s)) = areasWellFormed (areas s)"
  "areasWellFormed (areas (changeFurnitureColor fid c s)) = areasWellFormed (areas s)"
  "areasWellFormed (areas (deleteFurniture fid s)) = areasWellFormed (areas s)"
  "areasWellFormed (areas (handleCanvasMouseUp s)) = areasWellFormed (areas s)"
  by (simp_all add: resizeFurniture_def renameFurniture_def changeFurnitureColor_def
      deleteFurniture_def handleCanvasMouseUp_def toast_def wellFormed_mapFurniture
      wellFormed_deleteFurniture)

lemma mouseMove_keeps_wellFormed:
  "areasWellFormed (areas (handleCanvasMouseMove s e)) = areasWellFormed (areas s)"
proof (cases "resizing s")
  case True
  then show ?thesis
    using handleResizeMove_cases [of s "getMousePos s e"]
    by (auto simp: handleCanvasMouseMove_def resizeFurniture_def wellFormed_mapFurniture)
next
  case False
  then show ?thesis
    using handleDragMove_areas [of s "getMousePos s e"]
    by (auto simp: handleCanvasMouseMove_def wellFormed_mapFurniture)
qed

text \<open>
  C4, as the spec words it, holds of every area in the registry.  A design file is
  imported as it is: the file with one two-point bedroom puts an area with two points
  into the registry of the desktop designer, whether or not the reset of the file input
  succeeds afterwards.
\<close>

theorem import_two_points_counterexample:
  "map_option areas (handleImportFile (\<lambda>path. []) True (Parsed twoPointFile) initial)
     = Some [twoPointArea] \<and>
   map_option areas (handleImportFile (\<lambda>path. []) False (Parsed twoPointFile) initial)
     = Some [twoPointArea] \<and>
   length (a_points twoPointArea) = 2 \<and>
   \<not> areasWellFormed [twoPointArea]"
  by (simp add: two_point_import)
     (simp add: twoPointArea_def areasWellFormed_def)

text \<open>
  C4, amended.  Taps keep the invariant that every area of the registry has at least
  three points: it is preserved by every sequence of clicks on the desktop canvas and by
  every sequence of taps on the mobile canvas.  A tap creates an area only in a drawing
  session with at least three accumulated points and within the close threshold of the
  first point (10 on the desktop, 40 on the mobile canvas), and the new area has the
  accumulated points.  A tap that reaches the drawing code while fewer than three points
  are accumulated is an ordinary add-point: the registry is unchanged and the point is
  appended to the session, however close to the first point it is.
\<close>

theorem areas_have_three_points:
  "(areasWellFormed (areas s) \<longrightarrow> areasWellFormed (areas (clickAll clicks s))) \<and>
   (length (areas (handleCanvasClickAt p ct it s)) \<noteq> length (areas s) \<longrightarrow>
      isDrawingPolygon s \<and> 3 \<le> length (currentPolygon s) \<and>
      distance p (currentPolygon s ! 0) < 10 \<and>
      a_points (last (areas (handleCanvasClickAt p ct it s))) = currentPolygon s) \<and>
   (isDrawingPolygon s \<and> \<not> isPlacingFurniture s \<and> interactionMode s = AreaMode \<and>
    getFurnitureAtPoint (areas s) p = None \<and> length (currentPolygon s) < 3 \<longrightarrow>
      areas (handleCanvasClickAt p ct it s) = areas s \<and>
      currentPolygon (handleCanvasClickAt p ct it s) = currentPolygon s @ [p]) \<and>
   (\<forall>m'. areasWellFormed (m_areas m) \<and> tapAll taps m = Inr m' \<longrightarrow>
      areasWellFormed (m_areas m')) \<and>
   (\<forall>m'. handleCanvasTap p now m = Inr m' \<and> length (m_areas m') \<noteq> length (m_areas m) \<longrightarrow>
      m_isDrawingPolygon m \<and> 3 \<le> length (m_currentPolygon m) \<and>
      distance p (m_currentPolygon m ! 0) < 40 \<and>
      a_points (last (m_areas m')) = m_currentPolygon m) \<and>
   (m_isDrawingPolygon m \<and> \<not> (m_isPlacingFurniture m \<and> m_pendingFurniture m \<noteq> None) \<and>
    getFurnitureAtPoint (m_areas m) p = None \<and>
    0 < length (m_currentPolygon m) \<and> length (m_currentPolygon m) < 3 \<longrightarrow>
      (\<exists>m'. handleCanvasTap p now m = Inr m' \<and> m_areas m' = m_areas m \<and>
         m_currentPolygon m' = m_currentPolygon m @ [p]))"
proof (intro conjI allI impI)
  show "areasWellFormed (areas (clickAll clicks s))" if "areasWellFormed (areas s)"
    using that by (rule clickAll_wellFormed)
next
  assume a: "length (areas (handleCanvasClickAt p ct it s)) \<noteq> length (areas s)"
  from click_creates [OF a]
  show "isDrawingPolygon s" "3 \<le> length (currentPolygon s)"
    "distance p (currentPolygon s ! 0) < 10"
    "a_points (last (areas (handleCanvasClickAt p ct it s))) = currentPolygon s"
    by simp_all
next
  assume a: "isDrawingPolygon s \<and> \<not> isPlacingFurniture s \<and> interactionMode s = AreaMode \<and>
    getFurnitureAtPoint (areas s) p = None \<and> length (currentPolygon s) < 3"
  then have "areas (handleCanvasClickAt p ct it s) = areas s \<and>
         currentPolygon (handleCanvasClickAt p ct it s) = currentPolygon s @ [p] \<and>
         isDrawingPolygon (handleCanvasClickAt p ct it s)"
    by (intro click_few_points) simp_all
  then show "areas (handleCanvasClickAt p ct it s) = areas s"
    "currentPolygon (handleCanvasClickAt p ct it s) = currentPolygon s @ [p]"
    by simp_all
next
  fix m'
  assume "areasWellFormed (m_areas m) \<and> tapAll taps m = Inr m'"
  then show "areasWellFormed (m_areas m')"
    using tapAll_wellFormed by blast
next
  fix m'
  assume a: "handleCanvasTap p now m = Inr m' \<and> length (m_areas m') \<noteq> length (m_areas m)"
  then have a1: "handleCanvasTap p now m = Inr m'"
    and a2: "length (m_areas m') \<noteq> length (m_areas m)" by simp_all
  from tap_creates [OF a1 a2]
  show "m_isDrawingPolygon m" "3 \<le> length (m_currentPolygon m)"
    "distance p (m_currentPolygon m ! 0) < 40"
    "a_points (last (m_areas m')) = m_currentPolygon m"
    by simp_all
next
  assume a: "m_isDrawingPolygon m \<and> \<not> (m_isPlacingFurniture m \<and> m_pendingFurniture m \<noteq> None) \<and>
    getFurnitureAtPoint (m_areas m) p = None \<and>
    0 < length (m_currentPolygon m) \<and> length (m_currentPolygon m) < 3"
  have "\<exists>m'. handleCanvasTap p now m = Inr m' \<and> m_areas m' = m_areas m \<and>
           m_currentPolygon m' = m_currentPolygon m @ [p] \<and> m_isDrawingPolygon m'"
    by (rule tap_few_points) (use a in simp_all)
  then show "\<exists>m'. handleCanvasTap p now m = Inr m' \<and> m_areas m' = m_areas m \<and>
         m_currentPolygon m' = m_currentPolygon m @ [p]"
    by blast
qed

theorem areas_have_three_points_witness:
  "isDrawingPolygon drawingTwo \<and> \<not> isPlacingFurniture drawingTwo \<and>
   interactionMode drawingTwo = AreaMode \<and>
   getFurnitureAtPoint (areas drawingTwo) (pt 0 0) = None \<and>
   length (currentPolygon drawingTwo) < 3 \<and>
   distance (pt 0 0) (currentPolygon drawingTwo ! 0) < 10 \<and>
   areas (handleCanvasClickAt (pt 0 0) 1000 1001 drawingTwo) = areas drawingTwo \<and>
   currentPolygon (handleCanvasClickAt (pt 0 0) 1000 1001 drawingTwo) =
     [pt 0 0, pt 100 0, pt 0 0] \<and>
   areasWellFormed (areas drawingTwo) \<and>
   areasWellFormed (areas (clickAll [(pt 0 0, 1000, 1001)] drawingTwo)) \<and>
   m_isDrawingPolygon m_drawingTwo \<and>
   (\<exists>m'. handleCanvasTap (pt 0 0) 1000 m_drawingTwo = Inr m' \<and>
      m_areas m' = m_areas m_drawingTwo \<and>
      m_currentPolygon m' = [pt 0 0, pt 100 0, pt 0 0])"
proof -
  have d: "isDrawingPolygon drawingTwo" "\<not> isPlacingFurniture drawingTwo"
    "interactionMode drawingTwo = AreaMode" "areas drawingTwo = []"
    "currentPolygon drawingTwo = [pt 0 0, pt 100 0]"
    by (simp_all add: drawingTwo_def initial_def)
  have m: "m_isDrawingPolygon m_drawingTwo" "\<not> m_isPlacingFurniture m_drawingTwo"
    "m_areas m_drawingTwo = []" "m_currentPolygon m_drawingTwo = [pt 0 0, pt 100 0]"
    by (simp_all add: m_drawingTwo_def m_initial_def)
  have near: "distance (pt 0 0) (pt 0 0) < 10"
    by (simp add: distance_def)
  have wf: "areasWellFormed []" by (simp add: areasWellFormed_def)
  show ?thesis
    using areas_have_three_points
      [of drawingTwo "[(pt 0 0, 1000, 1001)]" "pt 0 0" 1000 1001 m_drawingTwo "[]" 1000]
    by (simp add: d m near wf getFurnitureAtPoint_Nil)
qed

section \<open>Validation of imported files\<close>

lemma desktop_import_rejects:
  assumes "\<not> (js_truthy (property data ''areas'') \<and> isArray (property data ''areas''))"
  shows "\<exists>msg. handleImportFile fresh targetAttached (Parsed data) s = Some (toast msg s) \<and>
           (data \<noteq> JNull \<longrightarrow> msg = ''Invalid file format'')"
  using assms by (cases data) (auto simp: handleImportFile_def)

lemma desktop_import_replaces_only_valid:
  assumes "handleImportFile fresh targetAttached u s = Some s'" and "areas s' \<noteq> areas s"
  shows "\<exists>data xs. u = Parsed data \<and> property data ''areas'' = Some (JArr xs)"
proof (cases u)
  case NoFile
  then show ?thesis using assms by (simp add: handleImportFile_def)
next
  case Unparsable
  then show ?thesis using assms by (auto simp: handleImportFile_def toast_def)
next
  case (Parsed data)
  show ?thesis
  proof (cases "js_truthy (property data ''areas'') \<and> isArray (property data ''areas'')")
    case True
    then obtain xs where "property data ''areas'' = Some (JArr xs)"
      by (cases "property data ''areas''" rule: isArray.cases) auto
    then show ?thesis using Parsed by simp
  next
    case False
    from desktop_import_rejects [OF False, of fresh targetAttached s]
    obtain msg where "handleImportFile fresh targetAttached (Parsed data) s = Some (toast msg s)"
      by blast
    then show ?thesis using assms Parsed by (auto simp: toast_def)
  qed
qed

text \<open>
  C7.  The property asked for is that an import whose data has no \<open>areas\<close>, or whose
  \<open>areas\<close> is not an array, is rejected with a visible failure and changes nothing.
  The mobile designer does not validate: a file whose \<open>areas\<close> is the number 5 is
  accepted, \<^verbatim>\<open>setAreas(5)\<close> is called and success is reported; a file without \<open>areas\<close>
  is ignored without any message.  (The desktop designer rejects both with the toast
  \<open>Invalid file format\<close> and changes nothing else.)
\<close>

theorem mobile_import_not_validated:
  "handleImportJSON (Parsed (JObj [(''areas'', JNum 5)]))
     = [SetAreas (JNum 5), Toast ''Floor plan imported''] \<and>
   handleImportJSON (Parsed (JObj [(''zoomLevel'', JNum 1)])) = [] \<and>
   handleImportFile fresh targetAttached (Parsed (JObj [(''areas'', JNum 5)])) s
     = Some (toast ''Invalid file format'' s) \<and>
   handleImportFile fresh targetAttached (Parsed (JObj [(''zoomLevel'', JNum 1)])) s
     = Some (toast ''Invalid file format'' s)"
  by (simp add: handleImportJSON_def handleImportFile_def)

theorem mobile_import_not_validated_witness:
  "handleImportJSON (Parsed (JObj [(''areas'', JNum 5)]))
     = [SetAreas (JNum 5), Toast ''Floor plan imported''] \<and>
   handleImportJSON (Parsed (JObj [(''zoomLevel'', JNum 1)])) = [] \<and>
   handleImportFile (\<lambda>path. []) True (Parsed (JObj [(''areas'', JNum 5)])) initial
     = Some (toast ''Invalid file format'' initial) \<and>
   areas (toast ''Invalid file format'' initial) = areas initial"
  using mobile_import_not_validated [of "\<lambda>path. []" True initial]
  by (simp add: toast_def)

section \<open>The long-press timer\<close>

lemma finger_point: "getCanvasPoint m_chairRoom 96 96 = pt 40 40"
  by (simp add: getCanvasPoint_def m_chairRoom_def m_initial_def pt_def snapToGrid_samples)

lemma runTimers_idle: "m_timers s = [] \<Longrightarrow> runTimers now s = s"
  by (simp add: runTimers_def)

lemma chairRoom_fields:
  "m_timers m_chairRoom = []" "m_nextTimer m_chairRoom = 1"
  "m_areas m_chairRoom = [triangleRoom]" "m_longPressTimer m_chairRoom = None"
  by (simp_all add: m_chairRoom_def m_initial_def)

lemma after_touchstart:
  "deliver (1000, TouchEvent touchstart [finger] [finger]) m_chairRoom = Inr pressed"
  by (simp add: deliver_def runTimers_idle chairRoom_fields handleCanvasTouch_def touchAt_def
      finger_def finger_point setTimeout_def pressed_def Let_def numeral_2_eq_2)

lemma touchend_ignored:
  "deliver (1100, TouchEvent touchend [] [finger]) pressed = Inr pressed"
  by (simp add: deliver_def handleCanvasTouch_def runTimers_def pressed_def)

lemma quickTap_result: "deliverAll quickTap m_chairRoom = Inr pressed"
  by (simp add: quickTap_def after_touchstart touchend_ignored)

lemma long_press_runs:
  "runTimers 1600 pressed =
     pressed\<lparr>m_timers := [], m_selectedFurnitureItem := Some ''furniture-1'',
       m_editingFurniture := Some chair, m_editPanelOpen := True,
       m_toasts := [''Furniture selected'']\<rparr>"
  by (simp add: runTimers_def pressed_def fireTimer_def handleLongPress_def
      getFurnitureAtPoint_def allFurniture_def furnitureOrEmpty_def triangleRoom_def
      furnitureHit_def chair_def pt_def m_toast_def m_chairRoom_def m_initial_def)

lemma touchmove_cancels:
  "deliver (1100, TouchEvent touchmove [finger] [finger]) pressed =
     Inr (pressed\<lparr>m_timers := [], m_longPressTimer := None\<rparr>)"
  by (simp add: deliver_def handleCanvasTouch_def runTimers_def pressed_def touchAt_def
      cancelLongPress_def clearTimeout_def finger_def Let_def)
     (simp add: getCanvasPoint_def m_chairRoom_def m_initial_def pt_def snapToGrid_samples)

text \<open>
  C9.  The property asked for is that a \<^verbatim>\<open>touchmove\<close> or \<^verbatim>\<open>touchend\<close> handled
  before the long-press delay has elapsed cancels the pending timer, so that its callback
  never runs.  On the mobile designer the \<^verbatim>\<open>touchend\<close> of a lifted finger carries no
  \<^verbatim>\<open>touches\<close>, so \<^verbatim>\<open>handleCanvasTouch\<close> returns before it reaches
  \<^verbatim>\<open>clearTimeout\<close>: after a quick tap on the chair the long-press timer is still
  pending, and when it is due, 600 ms after the \<^verbatim>\<open>touchstart\<close>, its callback runs,
  selects the chair and opens the edit panel.  A \<^verbatim>\<open>touchmove\<close> with the finger still
  down does cancel the timer.
\<close>

theorem long_press_fires_after_touchend:
  "deliverAll quickTap m_chairRoom = Inr pressed \<and>
   m_timers pressed = [(1, 1600, LongPress (pt 40 40) [triangleRoom])] \<and>
   m_editPanelOpen (runTimers 1600 pressed) \<and>
   m_editingFurniture (runTimers 1600 pressed) = Some chair \<and>
   m_toasts (runTimers 1600 pressed) = [''Furniture selected''] \<and>
   map_sum (\<lambda>err. err) m_timers (deliverAll shortDrag m_chairRoom) = Inr []"
  by (simp add: quickTap_result long_press_runs shortDrag_def after_touchstart
      touchmove_cancels)
     (simp add: pressed_def)

end
